theory Spec2Isabelle
  imports Complex_Main "HOL-Library.AList"
begin

section \<open>Python values\<close>

text \<open>
  A Python \<open>str\<close> is a sequence of Unicode code points; \<open>len\<close> and slicing count
  code points.  Isabelle's \<open>char\<close> is a byte, so a Python string is modelled as a list of
  code points.  \<open>u\<close> embeds an ASCII literal.
\<close>

type_synonym pystr = "nat list"

definition u :: "string \<Rightarrow> pystr" where
  "u s = map of_char s"

text \<open>
  What \<open>response.json()\<close> can return.  \<open>JInt\<close> is a Python \<open>int\<close>, \<open>JFloat\<close> a finite
  Python \<open>float\<close> given by its exact value (the code never computes with numbers; it only
  tests, compares and stores them).  \<open>JObj\<close> is a \<open>dict\<close> in insertion order, read with
  \<open>map_of\<close>.
\<close>

datatype json =
    JNull
  | JBool bool
  | JInt int
  | JFloat rat
  | JStr pystr
  | JArr "json list"
  | JObj "(pystr \<times> json) list"

datatype py_error =
    KeyError
  | TypeError
  | AttributeError
  | IndexError
  | RequestException
  | HTTPError
  | JSONDecodeError
  | FeedError
  | OSError

text \<open>Sequencing of statements that may raise: the first exception ends the block.\<close>

definition and_then :: "py_error + 'a \<Rightarrow> ('a \<Rightarrow> py_error + 'b) \<Rightarrow> py_error + 'b" where
  "and_then m k = (case m of Inl e \<Rightarrow> Inl e | Inr x \<Rightarrow> k x)"

text \<open>Truth value of an object, as \<open>if x\<close> and \<open>x and y\<close> test it.\<close>

fun truthy :: "json \<Rightarrow> bool" where
  "truthy JNull = False"
| "truthy (JBool b) = b"
| "truthy (JInt i) = (i \<noteq> 0)"
| "truthy (JFloat q) = (q \<noteq> 0)"
| "truthy (JStr s) = (s \<noteq> [])"
| "truthy (JArr xs) = (xs \<noteq> [])"
| "truthy (JObj kvs) = (kvs \<noteq> [])"

text \<open>\<open>x[key]\<close> with a string key: only a dict holding the key answers.\<close>

fun subscript :: "json \<Rightarrow> pystr \<Rightarrow> py_error + json" where
  "subscript (JObj kvs) key = (case map_of kvs key of None \<Rightarrow> Inl KeyError | Some v \<Rightarrow> Inr v)"
| "subscript _ key = Inl TypeError"

text \<open>\<open>x.get(key, default)\<close>: only a dict has the method.\<close>

fun dict_get :: "json \<Rightarrow> pystr \<Rightarrow> json \<Rightarrow> py_error + json" where
  "dict_get (JObj kvs) key dflt = (case map_of kvs key of None \<Rightarrow> Inr dflt | Some v \<Rightarrow> Inr v)"
| "dict_get _ key dflt = Inl AttributeError"

text \<open>\<open>for x in v\<close>: a list gives its elements, a dict its keys, a string its characters.\<close>

fun py_iter :: "json \<Rightarrow> py_error + json list" where
  "py_iter (JArr xs) = Inr xs"
| "py_iter (JObj kvs) = Inr (map (\<lambda>kv. JStr (fst kv)) kvs)"
| "py_iter (JStr s) = Inr (map (\<lambda>c. JStr [c]) s)"
| "py_iter _ = Inl TypeError"

text \<open>\<open>v[:n] + "..."\<close>: a string can be sliced and then concatenated with a string.\<close>

fun slice_ellipsis :: "nat \<Rightarrow> json \<Rightarrow> py_error + json" where
  "slice_ellipsis n (JStr s) = Inr (JStr (take n s @ u ''...''))"
| "slice_ellipsis n _ = Inl TypeError"

text \<open>\<open>str(n)\<close> for a length, as the f-string renders it.\<close>

fun str_of_nat :: "nat \<Rightarrow> pystr" where
  "str_of_nat n = (if n < 10 then [48 + n] else str_of_nat (n div 10) @ [48 + n mod 10])"

declare str_of_nat.simps [simp del]

section \<open>Configuration and the collector object\<close>

record settings =
  NEWS_API_KEY :: "pystr option"
  MAX_NEWS_COUNT :: int

text \<open>
  One entry of \<open>countries_and_categories\<close>.  A field is \<open>None\<close> when the dict has no such
  key or holds Python's \<open>None\<close> (\<open>config.get\<close> does not tell them apart).
\<close>

record fetch_config =
  cfg_country :: "pystr option"
  cfg_category :: "pystr option"
  cfg_sources :: "pystr option"
  cfg_name :: pystr

record rss_config =
  rss_url :: pystr
  rss_name :: pystr
  rss_country :: pystr

record fetcher =
  api_key :: "pystr option"
  base_url :: pystr
  data_dir :: pystr
  today_str :: pystr
  csv_file :: pystr
  json_file :: pystr
  rss_sources :: "rss_config list"

definition default_rss_sources :: "rss_config list" where
  "default_rss_sources =
    [\<lparr>rss_url = u ''https://feeds.yna.co.kr/news'',
      rss_name = [50672, 54633, 45684, 49828], rss_country = u ''kr''\<rparr>,
     \<lparr>rss_url = u ''https://www.mk.co.kr/rss/30000001/'',
      rss_name = [47588, 51068, 44221, 51228], rss_country = u ''kr''\<rparr>,
     \<lparr>rss_url = u ''http://news.chosun.com/site/data/rss/rss.xml'',
      rss_name = [51312, 49440, 51068, 48372], rss_country = u ''kr''\<rparr>,
     \<lparr>rss_url = u ''http://feeds.bbci.co.uk/news/rss.xml'',
      rss_name = u ''BBC'', rss_country = u ''gb''\<rparr>,
     \<lparr>rss_url = u ''https://www.theguardian.com/world/rss'',
      rss_name = u ''Guardian'', rss_country = u ''gb''\<rparr>,
     \<lparr>rss_url = u ''http://rss.cnn.com/rss/edition.rss'',
      rss_name = u ''CNN'', rss_country = u ''us''\<rparr>]"

text \<open>
  \<open>__init__\<close>: \<open>today\<close> is \<open>date.today().strftime("%Y%m%d")\<close>, read once here.  Only
  \<open>NEWS_API_KEY\<close> is read from the settings.  (The constructor also creates the data
  directory; directories are not part of the file model below.)
\<close>

definition GlobalNewsFetcher_init :: "settings \<Rightarrow> pystr \<Rightarrow> fetcher" where
  "GlobalNewsFetcher_init s today =
    \<lparr>api_key = NEWS_API_KEY s,
     base_url = u ''https://newsapi.org/v2'',
     data_dir = u ''internet_killer/data'',
     today_str = today,
     csv_file = u ''internet_killer/data'' @ u ''/news_data_'' @ today @ u ''.csv'',
     json_file = u ''internet_killer/data'' @ u ''/news_data_'' @ today @ u ''.json'',
     rss_sources = default_rss_sources\<rparr>"

definition countries_and_categories :: "fetch_config list" where
  "countries_and_categories =
    [\<lparr>cfg_country = Some (u ''kr''), cfg_category = None, cfg_sources = None,
      cfg_name = [54620, 44397, 32, 51204, 52404]\<rparr>,
     \<lparr>cfg_country = Some (u ''kr''), cfg_category = Some (u ''technology''), cfg_sources = None,
      cfg_name = [54620, 44397, 32, 44592, 49696]\<rparr>,
     \<lparr>cfg_country = Some (u ''kr''), cfg_category = Some (u ''business''), cfg_sources = None,
      cfg_name = [54620, 44397, 32, 44221, 51228]\<rparr>,
     \<lparr>cfg_country = Some (u ''kr''), cfg_category = Some (u ''entertainment''), cfg_sources = None,
      cfg_name = [54620, 44397, 32, 50672, 50696]\<rparr>,
     \<lparr>cfg_country = Some (u ''us''), cfg_category = None, cfg_sources = None,
      cfg_name = [48120, 44397, 32, 51204, 52404]\<rparr>,
     \<lparr>cfg_country = Some (u ''us''), cfg_category = Some (u ''technology''), cfg_sources = None,
      cfg_name = [48120, 44397, 32, 44592, 49696]\<rparr>,
     \<lparr>cfg_country = Some (u ''us''), cfg_category = Some (u ''business''), cfg_sources = None,
      cfg_name = [48120, 44397, 32, 44221, 51228]\<rparr>,
     \<lparr>cfg_country = Some (u ''us''), cfg_category = Some (u ''politics''), cfg_sources = None,
      cfg_name = [48120, 44397, 32, 51221, 52824]\<rparr>,
     \<lparr>cfg_country = Some (u ''gb''), cfg_category = None, cfg_sources = None,
      cfg_name = [50689, 44397, 32, 51204, 52404]\<rparr>,
     \<lparr>cfg_country = Some (u ''gb''), cfg_category = Some (u ''business''), cfg_sources = None,
      cfg_name = [50689, 44397, 32, 44221, 51228]\<rparr>,
     \<lparr>cfg_country = Some (u ''gb''), cfg_category = Some (u ''politics''), cfg_sources = None,
      cfg_name = [50689, 44397, 32, 51221, 52824]\<rparr>,
     \<lparr>cfg_country = None, cfg_category = None,
      cfg_sources = Some (u ''bbc-news,cnn,reuters,associated-press,techcrunch''),
      cfg_name = [44544, 47196, 48268, 32, 51452, 50836, 32, 47588, 52404]\<rparr>]"

section \<open>Articles, the environment and the world\<close>

text \<open>
  A processed article: the dict built in the two fetch loops.  Values taken over from the
  API response keep whatever JSON value the response held.
\<close>

record article =
  article_id :: json
  title :: json
  description :: json
  content :: json
  url :: json
  source_name :: json
  category :: json
  country :: json
  published_at :: json
  collected_at :: json
  author :: json

text \<open>
  A feed entry as \<open>feedparser\<close> hands it over: an attribute is \<open>None\<close> when the entry
  lacks it (\<open>hasattr\<close> is false, reading it raises \<open>AttributeError\<close>).  \<open>entry_content\<close> is
  the list of content dicts, each with its optional \<open>value\<close>.
\<close>

record entry =
  entry_title :: "pystr option"
  entry_summary :: "pystr option"
  entry_content :: "pystr option list option"
  entry_link :: "pystr option"
  entry_published :: "pystr option"
  entry_author :: "pystr option"

record request =
  req_url :: pystr
  req_params :: "(pystr \<times> json) list"
  req_timeout :: nat

datatype http_outcome =
    RequestFails
  | Response nat "json option"

datatype feed_outcome =
    ParseFails
  | Feed "entry list"

text \<open>The places where the code reads the clock: source name and loop position.\<close>

datatype clock_site =
    ApiCollected pystr nat
  | RssPublished pystr nat
  | RssCollected pystr nat
  | SaveTimestamp

datatype file_content =
    CsvFile "article list"
  | JsonFile pystr pystr nat "article list"
  | Truncated

datatype write_outcome =
    WriteOk
  | OpenFails
  | WriteFailsMidway

text \<open>
  Everything a run reads from outside: what the headline API answers to a request
  (\<open>RequestFails\<close>: timeout or connection error; \<open>Response status body\<close> with \<open>body = None\<close>
  when the body is not JSON), what \<open>feedparser.parse\<close> makes of a feed URL, what
  \<open>datetime.now().isoformat()\<close> shows at each place, and how a write to a path goes.
\<close>

record env =
  requests_get :: "request \<Rightarrow> http_outcome"
  feedparser_parse :: "pystr \<Rightarrow> feed_outcome"
  datetime_now :: "clock_site \<Rightarrow> pystr"
  file_write :: "pystr \<Rightarrow> file_content \<Rightarrow> write_outcome"

datatype net_call =
    ApiGet request
  | FeedGet pystr

text \<open>What a run changes: the files on disk and the network calls made so far.\<close>

record world =
  files :: "pystr \<Rightarrow> file_content option"
  net_log :: "net_call list"

section \<open>The collector's operations\<close>

definition check_today_data_exists :: "fetcher \<Rightarrow> world \<Rightarrow> bool" where
  "check_today_data_exists f w =
    (files w (csv_file f) \<noteq> None \<and> files w (json_file f) \<noteq> None)"

text \<open>The query parameters of \<open>_fetch_news_by_config\<close>, in the order the code sets them.\<close>

definition build_params :: "fetcher \<Rightarrow> fetch_config \<Rightarrow> py_error + (pystr \<times> json) list" where
  "build_params f config =
    (let params = [(u ''apiKey'', (case api_key f of None \<Rightarrow> JNull | Some k \<Rightarrow> JStr k)),
                   (u ''pageSize'', JInt 20)]
     in and_then
       (if cfg_country config = Some (u ''kr'') then
          Inr (AList.update (u ''country'') (JStr (u ''kr'')) params)
        else if cfg_country config = Some (u ''gb'') then
          Inr (AList.update (u ''language'') (JStr (u ''en''))
                (AList.update (u ''country'') (JStr (u ''gb'')) params))
        else
          (case cfg_sources config of
             Some s \<Rightarrow>
               Inr (AList.update (u ''language'') (JStr (u ''en''))
                     (AList.update (u ''sources'') (JStr s) params))
           | None \<Rightarrow>
               (case cfg_country config of
                  None \<Rightarrow> Inl KeyError
                | Some c \<Rightarrow>
                    Inr (AList.update (u ''language'') (JStr (u ''en''))
                          (AList.update (u ''country'') (JStr c) params)))))
       (\<lambda>params.
          (case cfg_category config of
             None \<Rightarrow> Inr params
           | Some c \<Rightarrow>
               if c \<noteq> [] then Inr (AList.update (u ''category'') (JStr c) params)
               else Inr params)))"

text \<open>
  The body of the loop over \<open>data.get("articles", [])\<close> for the article \<open>a\<close> at loop
  position \<open>i\<close>, with \<open>n = len(articles)\<close> kept so far.  \<open>Inr None\<close>: the \<open>if\<close> is false and
  nothing is appended.
\<close>

definition process_article ::
  "env \<Rightarrow> fetch_config \<Rightarrow> nat \<Rightarrow> nat \<Rightarrow> json \<Rightarrow> py_error + article option" where
  "process_article e config i n a =
    and_then (subscript a (u ''title'')) (\<lambda>t.
    if \<not> truthy t then Inr None else
    and_then (subscript a (u ''description'')) (\<lambda>d.
    if \<not> truthy d then Inr None else
    and_then (dict_get a (u ''content'') JNull) (\<lambda>c.
    and_then (if truthy c
              then and_then (dict_get a (u ''content'') (JStr [])) (slice_ellipsis 1000)
              else Inr (JStr [])) (\<lambda>cont.
    and_then (subscript a (u ''url'')) (\<lambda>link.
    and_then (subscript a (u ''source'')) (\<lambda>src.
    and_then (subscript src (u ''name'')) (\<lambda>sname.
    and_then (subscript a (u ''publishedAt'')) (\<lambda>pub.
    and_then (dict_get a (u ''author'') (JStr (u ''Unknown''))) (\<lambda>auth.
      Inr (Some
        \<lparr>article_id = JStr (cfg_name config @ u ''_'' @ str_of_nat n),
         title = t,
         description = d,
         content = cont,
         url = link,
         source_name = sname,
         category = JStr (cfg_name config),
         country = JStr (case cfg_country config of None \<Rightarrow> u ''global'' | Some k \<Rightarrow> k),
         published_at = pub,
         collected_at = JStr (datetime_now e (ApiCollected (cfg_name config) i)),
         author = auth\<rparr>))))))))))"

fun process_articles ::
  "env \<Rightarrow> fetch_config \<Rightarrow> json list \<Rightarrow> nat \<Rightarrow> article list \<Rightarrow> py_error + article list" where
  "process_articles e config [] i articles = Inr articles"
| "process_articles e config (a # rest) i articles =
    (case process_article e config i (length articles) a of
       Inl err \<Rightarrow> Inl err
     | Inr None \<Rightarrow> process_articles e config rest (Suc i) articles
     | Inr (Some p) \<Rightarrow> process_articles e config rest (Suc i) (articles @ [p]))"

text \<open>What the code does with the response of \<open>requests.get\<close>.\<close>

definition read_response :: "env \<Rightarrow> fetch_config \<Rightarrow> http_outcome \<Rightarrow> py_error + article list" where
  "read_response e config r =
    (case r of
       RequestFails \<Rightarrow> Inl RequestException
     | Response status body \<Rightarrow>
         if 400 \<le> status \<and> status < 600 then Inl HTTPError
         else (case body of
                 None \<Rightarrow> Inl JSONDecodeError
               | Some data \<Rightarrow>
                   and_then (dict_get data (u ''totalResults'') (JInt 0)) (\<lambda>total.
                   and_then (dict_get data (u ''articles'') (JArr [])) (\<lambda>arts.
                   and_then (py_iter arts) (\<lambda>raws.
                     process_articles e config raws 0 [])))))"

text \<open>The \<open>try\<close> block of \<open>_fetch_news_by_config\<close>: its value or its exception.\<close>

definition fetch_news_try ::
  "env \<Rightarrow> fetcher \<Rightarrow> fetch_config \<Rightarrow> world \<Rightarrow> (py_error + article list) \<times> world" where
  "fetch_news_try e f config w =
    (case build_params f config of
       Inl err \<Rightarrow> (Inl err, w)
     | Inr params \<Rightarrow>
         (let req = \<lparr>req_url = base_url f @ u ''/top-headlines'',
                     req_params = params, req_timeout = 10\<rparr>
          in (read_response e config (requests_get e req),
              w\<lparr>net_log := net_log w @ [ApiGet req]\<rparr>)))"

text \<open>\<open>_fetch_news_by_config\<close>: \<open>except Exception\<close> turns every exception into \<open>[]\<close>.\<close>

definition fetch_news_by_config ::
  "env \<Rightarrow> fetcher \<Rightarrow> fetch_config \<Rightarrow> world \<Rightarrow> article list \<times> world" where
  "fetch_news_by_config e f config w =
    (case fetch_news_try e f config w of
       (Inl err, w') \<Rightarrow> ([], w')
     | (Inr articles, w') \<Rightarrow> (articles, w'))"

text \<open>
  The body of the loop over \<open>feed.entries[:10]\<close>; \<open>n = len(articles)\<close> is also the loop
  position, since every entry is appended.
\<close>

definition process_rss_entry :: "env \<Rightarrow> rss_config \<Rightarrow> nat \<Rightarrow> entry \<Rightarrow> py_error + article" where
  "process_rss_entry e rc n en =
    (case entry_title en of
       None \<Rightarrow> Inl AttributeError
     | Some t \<Rightarrow>
         and_then
           (case entry_content en of
              None \<Rightarrow> Inr []
            | Some [] \<Rightarrow> Inl IndexError
            | Some (c # cs) \<Rightarrow>
                Inr (take 1000 (case c of None \<Rightarrow> [] | Some v \<Rightarrow> v) @ u ''...'')) (\<lambda>cont.
           (case entry_link en of
              None \<Rightarrow> Inl AttributeError
            | Some l \<Rightarrow>
                Inr \<lparr>article_id = JStr (rss_name rc @ u ''_'' @ str_of_nat n),
                     title = JStr t,
                     description =
                       JStr (take 200 (case entry_summary en of None \<Rightarrow> t | Some s \<Rightarrow> s)
                             @ u ''...''),
                     content = JStr cont,
                     url = JStr l,
                     source_name = JStr (rss_name rc),
                     category = JStr (rss_name rc @ u '' RSS''),
                     country = JStr (rss_country rc),
                     published_at =
                       JStr (case entry_published en of
                               None \<Rightarrow> datetime_now e (RssPublished (rss_name rc) n)
                             | Some p \<Rightarrow> p),
                     collected_at = JStr (datetime_now e (RssCollected (rss_name rc) n)),
                     author =
                       JStr (case entry_author en of None \<Rightarrow> u ''Unknown'' | Some a \<Rightarrow> a)\<rparr>)))"

fun process_rss_entries ::
  "env \<Rightarrow> rss_config \<Rightarrow> entry list \<Rightarrow> article list \<Rightarrow> py_error + article list" where
  "process_rss_entries e rc [] articles = Inr articles"
| "process_rss_entries e rc (en # rest) articles =
    (case process_rss_entry e rc (length articles) en of
       Inl err \<Rightarrow> Inl err
     | Inr p \<Rightarrow> process_rss_entries e rc rest (articles @ [p]))"

definition fetch_rss_try ::
  "env \<Rightarrow> rss_config \<Rightarrow> world \<Rightarrow> (py_error + article list) \<times> world" where
  "fetch_rss_try e rc w =
    ((case feedparser_parse e (rss_url rc) of
        ParseFails \<Rightarrow> Inl FeedError
      | Feed entries \<Rightarrow> process_rss_entries e rc (take 10 entries) []),
     w\<lparr>net_log := net_log w @ [FeedGet (rss_url rc)]\<rparr>)"

definition fetch_rss_news :: "env \<Rightarrow> rss_config \<Rightarrow> world \<Rightarrow> article list \<times> world" where
  "fetch_rss_news e rc w =
    (case fetch_rss_try e rc w of
       (Inl err, w') \<Rightarrow> ([], w')
     | (Inr articles, w') \<Rightarrow> (articles, w'))"

text \<open>
  Membership in \<open>seen_urls\<close> goes by hash and \<open>==\<close>: \<open>None\<close> equals only itself, booleans
  and numbers compare by value (\<open>True == 1 == 1.0\<close>), strings by their code points; a list
  or a dict is unhashable and raises \<open>TypeError\<close>.
\<close>

datatype hkey = HNone | HNum rat | HStr pystr

fun hash_key :: "json \<Rightarrow> py_error + hkey" where
  "hash_key JNull = Inr HNone"
| "hash_key (JBool b) = Inr (HNum (if b then 1 else 0))"
| "hash_key (JInt i) = Inr (HNum (of_int i))"
| "hash_key (JFloat q) = Inr (HNum q)"
| "hash_key (JStr s) = Inr (HStr s)"
| "hash_key (JArr xs) = Inl TypeError"
| "hash_key (JObj kvs) = Inl TypeError"

fun remove_duplicates_loop ::
  "article list \<Rightarrow> hkey set \<Rightarrow> article list \<Rightarrow> py_error + article list" where
  "remove_duplicates_loop [] seen_urls unique_articles = Inr unique_articles"
| "remove_duplicates_loop (a # rest) seen_urls unique_articles =
    (case hash_key (url a) of
       Inl err \<Rightarrow> Inl err
     | Inr k \<Rightarrow>
         if k \<notin> seen_urls
         then remove_duplicates_loop rest (insert k seen_urls) (unique_articles @ [a])
         else remove_duplicates_loop rest seen_urls unique_articles)"

definition remove_duplicates :: "article list \<Rightarrow> py_error + article list" where
  "remove_duplicates articles = remove_duplicates_loop articles {} []"

text \<open>
  One write of a whole file.  \<open>OpenFails\<close>: the exception comes before the file is
  touched; \<open>WriteFailsMidway\<close>: the file is left behind incomplete.
\<close>

definition write_file ::
  "env \<Rightarrow> pystr \<Rightarrow> file_content \<Rightarrow> world \<Rightarrow> (py_error + unit) \<times> world" where
  "write_file e path c w =
    (case file_write e path c of
       WriteOk \<Rightarrow> (Inr (), w\<lparr>files := (files w)(path \<mapsto> c)\<rparr>)
     | OpenFails \<Rightarrow> (Inl OSError, w)
     | WriteFailsMidway \<Rightarrow> (Inl OSError, w\<lparr>files := (files w)(path \<mapsto> Truncated)\<rparr>))"

text \<open>\<open>_save_to_files\<close>: the CSV first, then the JSON; an exception ends it silently.\<close>

definition save_to_files :: "env \<Rightarrow> fetcher \<Rightarrow> article list \<Rightarrow> world \<Rightarrow> world" where
  "save_to_files e f articles w =
    (case write_file e (csv_file f) (CsvFile articles) w of
       (Inl err, w') \<Rightarrow> w'
     | (Inr ok, w') \<Rightarrow>
         snd (write_file e (json_file f)
                (JsonFile (today_str f) (datetime_now e SaveTimestamp)
                   (length articles) articles) w'))"

fun fetch_all_configs ::
  "env \<Rightarrow> fetcher \<Rightarrow> fetch_config list \<Rightarrow> article list \<Rightarrow> world \<Rightarrow> article list \<times> world" where
  "fetch_all_configs e f [] all_articles w = (all_articles, w)"
| "fetch_all_configs e f (config # rest) all_articles w =
    (case fetch_news_by_config e f config w of
       (articles, w') \<Rightarrow> fetch_all_configs e f rest (all_articles @ articles) w')"

fun fetch_all_rss ::
  "env \<Rightarrow> rss_config list \<Rightarrow> article list \<Rightarrow> world \<Rightarrow> article list \<times> world" where
  "fetch_all_rss e [] all_articles w = (all_articles, w)"
| "fetch_all_rss e (rc # rest) all_articles w =
    (case fetch_rss_news e rc w of
       (rss_articles, w') \<Rightarrow> fetch_all_rss e rest (all_articles @ rss_articles) w')"

text \<open>
  \<open>collect_all_news\<close>.  The returned dict is an association list in the order of the
  literal.  \<open>_remove_duplicates\<close> runs outside any \<open>try\<close>, so its exception leaves
  \<open>collect_all_news\<close>.
\<close>

definition collect_all_news ::
  "env \<Rightarrow> fetcher \<Rightarrow> bool \<Rightarrow> world \<Rightarrow> (py_error + (pystr \<times> json) list) \<times> world" where
  "collect_all_news e f force_update w =
    (if check_today_data_exists f w \<and> \<not> force_update then
       (Inr [(u ''status'', JStr (u ''already_exists'')), (u ''date'', JStr (today_str f))], w)
     else if (case api_key f of None \<Rightarrow> True | Some k \<Rightarrow> k = []) then
       (Inr [(u ''status'', JStr (u ''error'')),
             (u ''message'', JStr (u ''API key missing''))], w)
     else
       (case fetch_all_configs e f countries_and_categories [] w of
          (api_articles, w1) \<Rightarrow>
            (case fetch_all_rss e (rss_sources f) api_articles w1 of
               (all_articles, w2) \<Rightarrow>
                 (case remove_duplicates all_articles of
                    Inl err \<Rightarrow> (Inl err, w2)
                  | Inr unique_articles \<Rightarrow>
                      (Inr [(u ''status'', JStr (u ''success'')),
                            (u ''date'', JStr (today_str f)),
                            (u ''total_articles'', JInt (int (length unique_articles))),
                            (u ''files'', JArr [JStr (csv_file f), JStr (json_file f)])],
                       save_to_files e f unique_articles w2)))))"

section \<open>Derived views of a run\<close>

text \<open>
  What a source contributes and which calls it makes do not depend on the world it
  starts from.  The following definitions name the two parts; the lemmas below show that
  the operations above compute exactly them.
\<close>

definition api_request :: "fetcher \<Rightarrow> (pystr \<times> json) list \<Rightarrow> request" where
  "api_request f params =
    \<lparr>req_url = base_url f @ u ''/top-headlines'', req_params = params, req_timeout = 10\<rparr>"

definition api_result :: "env \<Rightarrow> fetcher \<Rightarrow> fetch_config \<Rightarrow> py_error + article list" where
  "api_result e f config =
    (case build_params f config of
       Inl err \<Rightarrow> Inl err
     | Inr params \<Rightarrow> read_response e config (requests_get e (api_request f params)))"

definition api_articles :: "env \<Rightarrow> fetcher \<Rightarrow> fetch_config \<Rightarrow> article list" where
  "api_articles e f config =
    (case api_result e f config of Inl err \<Rightarrow> [] | Inr articles \<Rightarrow> articles)"

definition api_calls :: "fetcher \<Rightarrow> fetch_config \<Rightarrow> net_call list" where
  "api_calls f config =
    (case build_params f config of
       Inl err \<Rightarrow> []
     | Inr params \<Rightarrow> [ApiGet (api_request f params)])"

definition rss_result :: "env \<Rightarrow> rss_config \<Rightarrow> py_error + article list" where
  "rss_result e rc =
    (case feedparser_parse e (rss_url rc) of
       ParseFails \<Rightarrow> Inl FeedError
     | Feed entries \<Rightarrow> process_rss_entries e rc (take 10 entries) [])"

definition rss_articles :: "env \<Rightarrow> rss_config \<Rightarrow> article list" where
  "rss_articles e rc =
    (case rss_result e rc of Inl err \<Rightarrow> [] | Inr articles \<Rightarrow> articles)"

definition log_calls :: "net_call list \<Rightarrow> world \<Rightarrow> world" where
  "log_calls cs w = w\<lparr>net_log := net_log w @ cs\<rparr>"

text \<open>
  \<open>all_fetched\<close> is the list \<open>all_articles\<close> when the second loop of
  \<open>collect_all_news\<close> ends: the results of the configurations in their order, then those
  of the feeds in their order.
\<close>

definition all_fetched :: "env \<Rightarrow> fetcher \<Rightarrow> article list" where
  "all_fetched e f =
     concat (map (api_articles e f) countries_and_categories)
     @ concat (map (rss_articles e) (rss_sources f))"

definition all_calls :: "fetcher \<Rightarrow> net_call list" where
  "all_calls f =
     concat (map (api_calls f) countries_and_categories)
     @ map (\<lambda>rc. FeedGet (rss_url rc)) (rss_sources f)"

definition key_missing :: "fetcher \<Rightarrow> bool" where
  "key_missing f = (case api_key f of None \<Rightarrow> True | Some k \<Rightarrow> k = [])"

section \<open>Deduplication: what the claim asks for\<close>

text \<open>
  \<open>seen_after xs\<close> is the set \<open>seen_urls\<close> once the loop has passed \<open>xs\<close>.
  \<open>first_with_url xs i\<close> says that no earlier article of \<open>xs\<close> has the url of the one
  at position \<open>i\<close>; \<open>first_occurrences xs\<close> keeps exactly those articles, in their order.
\<close>

definition seen_after :: "article list \<Rightarrow> hkey set" where
  "seen_after xs = {k. \<exists>a\<in>set xs. hash_key (url a) = Inr k}"

definition first_with_url :: "article list \<Rightarrow> nat \<Rightarrow> bool" where
  "first_with_url xs i = (\<forall>j<i. hash_key (url (xs ! j)) \<noteq> hash_key (url (xs ! i)))"

definition first_occurrences :: "article list \<Rightarrow> article list" where
  "first_occurrences xs = map (\<lambda>i. xs ! i) (filter (first_with_url xs) [0..<length xs])"

section \<open>Concrete inputs\<close>

text \<open>A machine without network and with a read-only disk.\<close>

definition env_offline :: env where
  "env_offline =
    \<lparr>requests_get = (\<lambda>r. RequestFails),
     feedparser_parse = (\<lambda>url. ParseFails),
     datetime_now = (\<lambda>s. u ''2024-01-01T00:00:00''),
     file_write = (\<lambda>p c. OpenFails)\<rparr>"

definition world_empty :: world where
  "world_empty = \<lparr>files = (\<lambda>p. None), net_log = []\<rparr>"

definition settings_keyed :: settings where
  "settings_keyed = \<lparr>NEWS_API_KEY = Some (u ''k''), MAX_NEWS_COUNT = 100\<rparr>"

definition settings_unkeyed :: settings where
  "settings_unkeyed = \<lparr>NEWS_API_KEY = None, MAX_NEWS_COUNT = 100\<rparr>"

text \<open>
  A machine where every API request is answered with the same two articles, which share
  one url, every feed holds two entries without summary, the first with the url of the
  API articles, and every write goes through.
\<close>

definition sample_raw :: "string \<Rightarrow> string \<Rightarrow> json" where
  "sample_raw t link =
    JObj [(u ''title'', JStr (u t)), (u ''description'', JStr (u ''d'')),
          (u ''url'', JStr (u link)), (u ''source'', JObj [(u ''name'', JStr (u ''s''))]),
          (u ''publishedAt'', JStr (u ''p''))]"

definition sample_response :: json where
  "sample_response =
    JObj [(u ''totalResults'', JInt 2),
          (u ''articles'', JArr [sample_raw ''A'' ''x/1'', sample_raw ''B'' ''x/1''])]"

definition sample_entry :: "string \<Rightarrow> entry" where
  "sample_entry link =
    \<lparr>entry_title = Some (u ''T''), entry_summary = None, entry_content = None,
     entry_link = Some (u link), entry_published = None, entry_author = None\<rparr>"

definition env_sample :: env where
  "env_sample =
    \<lparr>requests_get = (\<lambda>r. Response 200 (Some sample_response)),
     feedparser_parse = (\<lambda>url. Feed [sample_entry ''x/1'', sample_entry ''x/2'']),
     datetime_now = (\<lambda>s. u ''t''),
     file_write = (\<lambda>p c. WriteOk)\<rparr>"

definition fetcher_keyed :: fetcher where
  "fetcher_keyed = GlobalNewsFetcher_init settings_keyed (u ''20240101'')"

text \<open>What that run keeps: the first API article and the second entry of the first feed.\<close>

definition sample_first :: article where
  "sample_first =
     \<lparr>article_id = JStr ([54620, 44397, 32, 51204, 52404] @ u ''_0''), title = JStr (u ''A''),
      description = JStr (u ''d''),
      content = JStr [], url = JStr (u ''x/1''), source_name = JStr (u ''s''),
      category = JStr [54620, 44397, 32, 51204, 52404],
      country = JStr (u ''kr''),
      published_at = JStr (u ''p''), collected_at = JStr (u ''t''),
      author = JStr (u ''Unknown'')\<rparr>"

definition sample_second :: article where
  "sample_second =
     \<lparr>article_id = JStr ([50672, 54633, 45684, 49828] @ u ''_1''), title = JStr (u ''T''),
      description = JStr (u ''T...''),
      content = JStr [], url = JStr (u ''x/2''),
      source_name = JStr [50672, 54633, 45684, 49828],
      category = JStr ([50672, 54633, 45684, 49828] @ u '' RSS''),
      country = JStr (u ''kr''),
      published_at = JStr (u ''t''), collected_at = JStr (u ''t''),
      author = JStr (u ''Unknown'')\<rparr>"

definition sample_unique :: "article list" where
  "sample_unique = [sample_first, sample_second]"

text \<open>A machine without network whose disk takes every write.\<close>

definition env_writable :: env where
  "env_writable = env_offline\<lparr>file_write := (\<lambda>p c. WriteOk)\<rparr>"

text \<open>
  Single articles of a response: one with a content of 1001 characters and what is stored
  for it, and one with an empty description.
\<close>

definition long_raw :: json where
  "long_raw =
    JObj [(u ''title'', JStr (u ''A'')), (u ''description'', JStr (u ''d'')),
          (u ''content'', JStr (replicate 1001 97)),
          (u ''url'', JStr (u ''x/1'')), (u ''source'', JObj [(u ''name'', JStr (u ''s''))]),
          (u ''publishedAt'', JStr (u ''p''))]"

definition config_kr :: fetch_config where
  "config_kr = \<lparr>cfg_country = Some (u ''kr''), cfg_category = None, cfg_sources = None,
                cfg_name = [54620, 44397, 32, 51204, 52404]\<rparr>"

definition long_article :: article where
  "long_article =
     \<lparr>article_id = JStr ([54620, 44397, 32, 51204, 52404] @ u ''_0''), title = JStr (u ''A''),
      description = JStr (u ''d''),
      content = JStr (replicate 1000 97 @ u ''...''), url = JStr (u ''x/1''),
      source_name = JStr (u ''s''), category = JStr [54620, 44397, 32, 51204, 52404],
      country = JStr (u ''kr''), published_at = JStr (u ''p''), collected_at = JStr (u ''t''),
      author = JStr (u ''Unknown'')\<rparr>"

definition empty_description_raw :: json where
  "empty_description_raw =
    JObj [(u ''title'', JStr (u ''A'')), (u ''description'', JStr []),
          (u ''url'', JStr (u ''x/1'')), (u ''source'', JObj [(u ''name'', JStr (u ''s''))]),
          (u ''publishedAt'', JStr (u ''p''))]"


section \<open>The query parameters: what the claim asks for\<close>

text \<open>
  The parameters of a request besides \<open>apiKey\<close> and \<open>pageSize\<close>, and the three shapes in
  the words of the claim: a country with an optional category; country \<open>gb\<close> with
  language \<open>en\<close> and an optional category; a source list with language \<open>en\<close>.
  \<open>amended_shape\<close> differs in the second shape only, which also admits country \<open>us\<close>.
\<close>

definition extra_params :: "(pystr \<times> json) list \<Rightarrow> (pystr \<times> json) list" where
  "extra_params ps = filter (\<lambda>kv. fst kv \<noteq> u ''apiKey'' \<and> fst kv \<noteq> u ''pageSize'') ps"

definition shape_country :: "(pystr \<times> json) list \<Rightarrow> bool" where
  "shape_country ps =
    (map_of ps (u ''country'') \<noteq> None
     \<and> list_all (\<lambda>k. k = u ''country'' \<or> k = u ''category'') (map fst ps))"

definition shape_gb :: "(pystr \<times> json) list \<Rightarrow> bool" where
  "shape_gb ps =
    (map_of ps (u ''country'') = Some (JStr (u ''gb''))
     \<and> map_of ps (u ''language'') = Some (JStr (u ''en''))
     \<and> list_all (\<lambda>k. k = u ''country'' \<or> k = u ''language'' \<or> k = u ''category'')
          (map fst ps))"

definition shape_sources :: "(pystr \<times> json) list \<Rightarrow> bool" where
  "shape_sources ps =
    (map_of ps (u ''sources'') \<noteq> None
     \<and> map_of ps (u ''language'') = Some (JStr (u ''en''))
     \<and> list_all (\<lambda>k. k = u ''sources'' \<or> k = u ''language'') (map fst ps))"

definition claimed_shape :: "(pystr \<times> json) list \<Rightarrow> bool" where
  "claimed_shape ps = (shape_country ps \<or> shape_gb ps \<or> shape_sources ps)"

definition shape_gb_us :: "(pystr \<times> json) list \<Rightarrow> bool" where
  "shape_gb_us ps =
    ((map_of ps (u ''country'') = Some (JStr (u ''gb''))
      \<or> map_of ps (u ''country'') = Some (JStr (u ''us'')))
     \<and> map_of ps (u ''language'') = Some (JStr (u ''en''))
     \<and> list_all (\<lambda>k. k = u ''country'' \<or> k = u ''language'' \<or> k = u ''category'')
          (map fst ps))"

definition amended_shape :: "(pystr \<times> json) list \<Rightarrow> bool" where
  "amended_shape ps = (shape_country ps \<or> shape_gb_us ps \<or> shape_sources ps)"

section \<open>More concrete inputs\<close>

text \<open>The request of the configuration for all US headlines, with the key \<open>k\<close>.\<close>

definition us_request :: request where
  "us_request =
    \<lparr>req_url = u ''https://newsapi.org/v2/top-headlines'',
     req_params = [(u ''apiKey'', JStr (u ''k'')), (u ''pageSize'', JInt 20),
                   (u ''country'', JStr (u ''us'')), (u ''language'', JStr (u ''en''))],
     req_timeout = 10\<rparr>"

text \<open>
  A machine where only the request with a source list is answered, with the body \<open>body\<close>;
  every other request times out, no feed parses, and every write ends as \<open>wo\<close>.
\<close>

definition sources_only_env :: "json \<Rightarrow> write_outcome \<Rightarrow> env" where
  "sources_only_env body wo =
    \<lparr>requests_get =
       (\<lambda>r. if map_of (req_params r) (u ''sources'') = None
            then RequestFails else Response 200 (Some body)),
     feedparser_parse = (\<lambda>url. ParseFails),
     datetime_now = (\<lambda>s. u ''t''),
     file_write = (\<lambda>p c. wo)\<rparr>"

text \<open>A response with two articles whose \<open>url\<close> is the same JSON list.\<close>

definition bad_raw :: "string \<Rightarrow> json" where
  "bad_raw t =
    JObj [(u ''title'', JStr (u t)), (u ''description'', JStr (u ''d'')),
          (u ''url'', JArr [JStr (u ''x/1'')]),
          (u ''source'', JObj [(u ''name'', JStr (u ''s''))]),
          (u ''publishedAt'', JStr (u ''p''))]"

definition bad_url_response :: json where
  "bad_url_response = JObj [(u ''articles'', JArr [bad_raw ''A'', bad_raw ''B''])]"

text \<open>The last configuration of the list, the one with the source list.\<close>

definition config_global :: fetch_config where
  "config_global =
    \<lparr>cfg_country = None, cfg_category = None,
     cfg_sources = Some (u ''bbc-news,cnn,reuters,associated-press,techcrunch''),
     cfg_name = [44544, 47196, 48268, 32, 51452, 50836, 32, 47588, 52404]\<rparr>"

text \<open>What the configuration with the source list stores for an article of a response.\<close>

definition global_article :: "nat \<Rightarrow> string \<Rightarrow> json \<Rightarrow> article" where
  "global_article n t link =
     \<lparr>article_id = JStr ([44544, 47196, 48268, 32, 51452, 50836, 32, 47588, 52404]
                          @ u ''_'' @ [48 + n]),
      title = JStr (u t), description = JStr (u ''d''), content = JStr [], url = link,
      source_name = JStr (u ''s''),
      category = JStr [44544, 47196, 48268, 32, 51452, 50836, 32, 47588, 52404],
      country = JStr (u ''global''), published_at = JStr (u ''p''),
      collected_at = JStr (u ''t''), author = JStr (u ''Unknown'')\<rparr>"







section \<open>Basic lemmas\<close>

lemma and_then_Inl [simp]: "and_then (Inl err) k = Inl err"
  by (simp add: and_then_def)

lemma and_then_Inr [simp]: "and_then (Inr x) k = k x"
  by (simp add: and_then_def)

lemma and_then_eq_Inr:
  "and_then m k = Inr y \<longleftrightarrow> (\<exists>x. m = Inr x \<and> k x = Inr y)"
  by (cases m) simp_all

lemma log_calls_Nil [simp]: "log_calls [] w = w"
  by (simp add: log_calls_def)

lemma log_calls_log_calls [simp]: "log_calls ys (log_calls xs w) = log_calls (xs @ ys) w"
  by (simp add: log_calls_def)

lemma fetch_news_try_eq:
  "fetch_news_try e f config w = (api_result e f config, log_calls (api_calls f config) w)"
  by (simp add: fetch_news_try_def api_result_def api_calls_def api_request_def log_calls_def
      Let_def split: sum.splits)

lemma fetch_news_by_config_eq:
  "fetch_news_by_config e f config w =
     (api_articles e f config, log_calls (api_calls f config) w)"
  by (simp add: fetch_news_by_config_def fetch_news_try_eq api_articles_def split: sum.splits)

lemma fetch_rss_try_eq:
  "fetch_rss_try e rc w = (rss_result e rc, log_calls [FeedGet (rss_url rc)] w)"
  by (simp add: fetch_rss_try_def rss_result_def log_calls_def)

lemma fetch_rss_news_eq:
  "fetch_rss_news e rc w = (rss_articles e rc, log_calls [FeedGet (rss_url rc)] w)"
  by (simp add: fetch_rss_news_def fetch_rss_try_eq rss_articles_def split: sum.splits)

lemma fetch_all_configs_eq:
  "fetch_all_configs e f cs acc w =
     (acc @ concat (map (api_articles e f) cs), log_calls (concat (map (api_calls f) cs)) w)"
  by (induction cs arbitrary: acc w) (simp_all add: fetch_news_by_config_eq)

lemma fetch_all_rss_eq:
  "fetch_all_rss e rcs acc w =
     (acc @ concat (map (rss_articles e) rcs),
      log_calls (map (\<lambda>rc. FeedGet (rss_url rc)) rcs) w)"
  by (induction rcs arbitrary: acc w) (simp_all add: fetch_rss_news_eq)

text \<open>Past the two guards, a run is deduplication of \<open>all_fetched\<close> followed by the save.\<close>

lemma collect_all_news_main:
  assumes "\<not> (check_today_data_exists f w \<and> \<not> force_update)" and "\<not> key_missing f"
  shows "collect_all_news e f force_update w =
    (case remove_duplicates (all_fetched e f) of
       Inl err \<Rightarrow> (Inl err, log_calls (all_calls f) w)
     | Inr unique_articles \<Rightarrow>
         (Inr [(u ''status'', JStr (u ''success'')),
               (u ''date'', JStr (today_str f)),
               (u ''total_articles'', JInt (int (length unique_articles))),
               (u ''files'', JArr [JStr (csv_file f), JStr (json_file f)])],
          save_to_files e f unique_articles (log_calls (all_calls f) w)))"
  using assms
  by (simp add: collect_all_news_def key_missing_def fetch_all_configs_eq fetch_all_rss_eq
      all_fetched_def all_calls_def split: sum.splits)

lemma save_to_files_net_log [simp]:
  "net_log (save_to_files e f articles w) = net_log w"
  by (simp add: save_to_files_def write_file_def split: write_outcome.splits)

lemma remove_duplicates_Nil [simp]: "remove_duplicates [] = Inr []"
  by (simp add: remove_duplicates_def)

lemma api_articles_offline [simp]: "api_articles env_offline f c = []"
  by (simp add: api_articles_def api_result_def env_offline_def read_response_def
      split: sum.splits)

lemma rss_articles_offline [simp]: "rss_articles env_offline rc = []"
  by (simp add: rss_articles_def rss_result_def env_offline_def)

lemma all_fetched_offline [simp]: "all_fetched env_offline f = []"
  by (simp add: all_fetched_def)

lemma files_save_offline [simp]: "files (save_to_files env_offline f arts w) = files w"
  by (simp add: save_to_files_def write_file_def env_offline_def)

lemma all_calls_keyed:
  "all_calls (GlobalNewsFetcher_init settings_keyed (u ''20240101'')) \<noteq> []"
  by (simp add: all_calls_def GlobalNewsFetcher_init_def default_rss_sources_def)

section \<open>Deduplication lemmas\<close>

lemma seen_after_Nil [simp]: "seen_after [] = {}"
  by (simp add: seen_after_def)

lemma seen_after_Cons:
  "hash_key (url a) = Inr k \<Longrightarrow> seen_after (a # xs) = insert k (seen_after xs)"
  by (auto simp add: seen_after_def)

lemma remove_duplicates_loop_append:
  "remove_duplicates_loop (xs @ ys) seen acc =
     (case remove_duplicates_loop xs seen acc of
        Inl err \<Rightarrow> Inl err
      | Inr out \<Rightarrow> remove_duplicates_loop ys (seen \<union> seen_after xs) out)"
proof (induction xs arbitrary: seen acc)
  case Nil
  show ?case by simp
next
  case (Cons a xs)
  show ?case
  proof (cases "hash_key (url a)")
    case (Inl err)
    then show ?thesis by simp
  next
    case (Inr k)
    show ?thesis
    proof (cases "k \<in> seen")
      case True
      then have "seen \<union> seen_after (a # xs) = seen \<union> seen_after xs"
        by (auto simp add: seen_after_Cons [OF Inr])
      with True Inr Cons.IH show ?thesis by (simp split: sum.splits)
    next
      case False
      have "seen \<union> seen_after (a # xs) = insert k seen \<union> seen_after xs"
        by (simp add: seen_after_Cons [OF Inr])
      with False Inr Cons.IH show ?thesis by (simp split: sum.splits)
    qed
  qed
qed

lemma remove_duplicates_snoc:
  "remove_duplicates (xs @ [a]) =
     (case remove_duplicates xs of
        Inl err \<Rightarrow> Inl err
      | Inr out \<Rightarrow>
          (case hash_key (url a) of
             Inl err \<Rightarrow> Inl err
           | Inr k \<Rightarrow> if k \<notin> seen_after xs then Inr (out @ [a]) else Inr out))"
  by (simp add: remove_duplicates_def remove_duplicates_loop_append split: sum.splits)

lemma first_with_url_append:
  "i < length xs \<Longrightarrow> first_with_url (xs @ ys) i = first_with_url xs i"
  by (simp add: first_with_url_def nth_append)

lemma first_with_url_last:
  assumes "hash_key (url a) = Inr k"
  shows "first_with_url (xs @ [a]) (length xs) \<longleftrightarrow> k \<notin> seen_after xs"
proof -
  have "first_with_url (xs @ [a]) (length xs)
        \<longleftrightarrow> (\<forall>j<length xs. hash_key (url (xs ! j)) \<noteq> Inr k)"
    by (simp add: first_with_url_def nth_append assms)
  also have "\<dots> \<longleftrightarrow> (\<forall>b\<in>set xs. hash_key (url b) \<noteq> Inr k)"
    by (simp add: all_set_conv_all_nth)
  also have "\<dots> \<longleftrightarrow> k \<notin> seen_after xs"
    by (auto simp add: seen_after_def)
  finally show ?thesis .
qed

lemma first_occurrences_snoc:
  "first_occurrences (xs @ [a]) =
     first_occurrences xs @ (if first_with_url (xs @ [a]) (length xs) then [a] else [])"
proof -
  have f: "filter (first_with_url (xs @ [a])) [0..<length xs]
           = filter (first_with_url xs) [0..<length xs]"
    by (rule filter_cong) (simp_all add: first_with_url_append)
  have m: "map (\<lambda>i. (xs @ [a]) ! i) (filter (first_with_url xs) [0..<length xs])
           = map (\<lambda>i. xs ! i) (filter (first_with_url xs) [0..<length xs])"
    by (rule map_cong) (simp_all add: nth_append)
  show ?thesis
    by (simp add: first_occurrences_def f m)
qed

lemma remove_duplicates_first_occurrences:
  "remove_duplicates xs = Inr out \<Longrightarrow> out = first_occurrences xs"
proof (induction xs arbitrary: out rule: rev_induct)
  case Nil
  then show ?case by (simp add: remove_duplicates_def first_occurrences_def)
next
  case (snoc a xs)
  from snoc.prems obtain out0 k where
    o: "remove_duplicates xs = Inr out0" and k: "hash_key (url a) = Inr k"
    and r: "out = (if k \<notin> seen_after xs then out0 @ [a] else out0)"
    by (auto simp add: remove_duplicates_snoc split: sum.splits if_splits)
  from snoc.IH [OF o] have "out0 = first_occurrences xs" .
  then show ?case
    by (simp add: r first_occurrences_snoc first_with_url_last [OF k])
qed

lemma remove_duplicates_Inr_iff:
  "(\<exists>out. remove_duplicates xs = Inr out) \<longleftrightarrow> (\<forall>a\<in>set xs. \<exists>k. hash_key (url a) = Inr k)"
proof (induction xs rule: rev_induct)
  case Nil
  show ?case by (simp add: remove_duplicates_def)
next
  case (snoc a xs)
  show ?case
  proof (cases "remove_duplicates xs")
    case (Inl err)
    with snoc show ?thesis by (auto simp add: remove_duplicates_snoc)
  next
    case (Inr out0)
    with snoc have all: "\<forall>a\<in>set xs. \<exists>k. hash_key (url a) = Inr k" by blast
    show ?thesis
      using Inr all by (cases "hash_key (url a)") (auto simp add: remove_duplicates_snoc)
  qed
qed

lemma remove_duplicates_keys:
  "remove_duplicates xs = Inr out \<Longrightarrow>
     distinct (map (\<lambda>a. hash_key (url a)) out)
     \<and> (\<lambda>a. hash_key (url a)) ` set out = Inr ` seen_after xs
     \<and> set out \<subseteq> set xs"
proof (induction xs arbitrary: out rule: rev_induct)
  case Nil
  then show ?case by (simp add: remove_duplicates_def)
next
  case (snoc a xs)
  from snoc.prems obtain out0 k where
    o: "remove_duplicates xs = Inr out0" and k: "hash_key (url a) = Inr k"
    and r: "out = (if k \<notin> seen_after xs then out0 @ [a] else out0)"
    by (auto simp add: remove_duplicates_snoc split: sum.splits if_splits)
  note ih = snoc.IH [OF o]
  have s: "seen_after (xs @ [a]) = insert k (seen_after xs)"
    using k by (auto simp add: seen_after_def)
  show ?case
  proof (cases "k \<in> seen_after xs")
    case True
    with ih r s show ?thesis by auto
  next
    case False
    then have "Inr k \<notin> (\<lambda>a. hash_key (url a)) ` set out0"
      using ih by auto
    with ih r s k False show ?thesis by auto
  qed
qed

section \<open>Missing credential\<close>

text \<open>
  C3.  With no API key configured (the environment variable unset, or set to the empty
  string) and today's data not on disk, \<open>collect_all_news\<close> returns the dict
  \<open>{"status": "error", "message": "API key missing"}\<close> as a value, not an exception, and
  leaves the world as it was: no network call is logged and no file is written.
\<close>

theorem missing_key_error:
  assumes "\<not> check_today_data_exists f w"
      and "api_key f = None \<or> api_key f = Some []"
  shows "collect_all_news e f force_update w =
           (Inr [(u ''status'', JStr (u ''error'')),
                 (u ''message'', JStr (u ''API key missing''))], w)"
  using assms by (auto simp add: collect_all_news_def)

theorem missing_key_error_witness:
  "\<not> check_today_data_exists
        (GlobalNewsFetcher_init settings_unkeyed (u ''20240101'')) world_empty
   \<and> api_key (GlobalNewsFetcher_init settings_unkeyed (u ''20240101'')) = None
   \<and> collect_all_news env_offline (GlobalNewsFetcher_init settings_unkeyed (u ''20240101''))
        False world_empty =
       (Inr [(u ''status'', JStr (u ''error'')),
             (u ''message'', JStr (u ''API key missing''))], world_empty)"
proof -
  let ?f = "GlobalNewsFetcher_init settings_unkeyed (u ''20240101'')"
  have h1: "\<not> check_today_data_exists ?f world_empty"
    by (simp add: check_today_data_exists_def world_empty_def)
  have h2: "api_key ?f = None"
    by (simp add: GlobalNewsFetcher_init_def settings_unkeyed_def)
  from missing_key_error [OF h1, of env_offline False] h1 h2 show ?thesis
    by simp
qed

section \<open>The unused setting\<close>

text \<open>
  C9.  \<open>MAX_NEWS_COUNT\<close> is never read: two collectors built from settings that differ
  only in \<open>MAX_NEWS_COUNT\<close> return the same value and leave the same world (the same
  files with the same contents, the same network calls) from every starting world and in
  every environment.
\<close>

theorem max_news_count_unused:
  "collect_all_news e (GlobalNewsFetcher_init (s\<lparr>MAX_NEWS_COUNT := a\<rparr>) today) force_update w
   = collect_all_news e (GlobalNewsFetcher_init (s\<lparr>MAX_NEWS_COUNT := b\<rparr>) today) force_update w"
  by (simp add: GlobalNewsFetcher_init_def)

theorem max_news_count_unused_witness:
  "collect_all_news env_offline
     (GlobalNewsFetcher_init (settings_keyed\<lparr>MAX_NEWS_COUNT := 1\<rparr>) (u ''20240101''))
     False world_empty
   = collect_all_news env_offline
     (GlobalNewsFetcher_init (settings_keyed\<lparr>MAX_NEWS_COUNT := 1000\<rparr>) (u ''20240101''))
     False world_empty"
  by (rule max_news_count_unused)

lemma files_log_calls [simp]: "files (log_calls cs w) = files w"
  by (simp add: log_calls_def)

lemma net_log_log_calls [simp]: "net_log (log_calls cs w) = net_log w @ cs"
  by (simp add: log_calls_def)

lemma fetched_eq:
  "concat (map (\<lambda>c. fst (fetch_news_by_config e f c w)) countries_and_categories)
   @ concat (map (\<lambda>rc. fst (fetch_rss_news e rc w)) (rss_sources f)) = all_fetched e f"
  by (simp add: fetch_news_by_config_eq fetch_rss_news_eq all_fetched_def)

lemma key_missing_Some: "api_key f = Some k \<Longrightarrow> k \<noteq> [] \<Longrightarrow> \<not> key_missing f"
  by (simp add: key_missing_def)

lemma files_save_to_files:
  assumes "files (save_to_files e f arts w) p = Some c"
  shows "files w p = Some c
       \<or> (p = csv_file f \<and> (c = CsvFile arts \<or> c = Truncated))
       \<or> (p = json_file f
           \<and> (c = JsonFile (today_str f) (datetime_now e SaveTimestamp) (length arts) arts
               \<or> c = Truncated))"
  using assms
  by (auto simp add: save_to_files_def write_file_def split: write_outcome.splits if_splits)

lemma files_save_csv_ok:
  assumes "file_write e (csv_file f) (CsvFile arts) = WriteOk" and "csv_file f \<noteq> json_file f"
  shows "files (save_to_files e f arts w) (csv_file f) = Some (CsvFile arts)"
  using assms
  by (auto simp add: save_to_files_def write_file_def split: write_outcome.splits)

lemma files_save_json_ok:
  assumes "file_write e (csv_file f) (CsvFile arts) = WriteOk"
      and "file_write e (json_file f)
             (JsonFile (today_str f) (datetime_now e SaveTimestamp) (length arts) arts) = WriteOk"
  shows "files (save_to_files e f arts w) (json_file f)
         = Some (JsonFile (today_str f) (datetime_now e SaveTimestamp) (length arts) arts)"
  using assms
  by (auto simp add: save_to_files_def write_file_def split: write_outcome.splits)

section \<open>Deduplication of a run\<close>

text \<open>
  C1, as the code has it.  Past the two guards, \<open>collect_all_news\<close> applies
  \<open>_remove_duplicates\<close> to the concatenation of what the configurations return, in the
  order of the list, followed by what the feeds return, in the order of the list.
  \<^emph>\<open>If every fetched url is hashable\<close> (a string, a number, a boolean or \<open>None\<close>; not a
  list or a dict), the call returns the success dict, the deduplicated list holds every
  url once (urls compared as the set \<open>seen_urls\<close> compares them), it consists of exactly
  the articles that are the first with their url, in their original order, and whatever
  the run leaves in a file is this list: the CSV rows and the JSON articles are the
  deduplicated list, written whenever the writes go through.
\<close>

theorem persisted_urls_unique:
  assumes guard: "\<not> (check_today_data_exists f w \<and> \<not> force_update)"
      and key: "api_key f = Some k" "k \<noteq> []"
      and init: "f = GlobalNewsFetcher_init s today"
      and fetched: "fetched =
            concat (map (\<lambda>c. fst (fetch_news_by_config e f c w)) countries_and_categories)
            @ concat (map (\<lambda>rc. fst (fetch_rss_news e rc w)) (rss_sources f))"
      and hashable: "\<forall>a\<in>set fetched. \<exists>h. hash_key (url a) = Inr h"
      and run: "collect_all_news e f force_update w = (r, w')"
  shows "\<exists>unique.
             remove_duplicates fetched = Inr unique
           \<and> r = Inr [(u ''status'', JStr (u ''success'')),
                      (u ''date'', JStr (today_str f)),
                      (u ''total_articles'', JInt (int (length unique))),
                      (u ''files'', JArr [JStr (csv_file f), JStr (json_file f)])]
           \<and> distinct (map (\<lambda>a. hash_key (url a)) unique)
           \<and> unique = first_occurrences fetched
           \<and> (\<forall>p c. files w' p = Some c \<longrightarrow>
                  files w p = Some c
                \<or> (p = csv_file f \<and> (c = CsvFile unique \<or> c = Truncated))
                \<or> (p = json_file f
                    \<and> (c = JsonFile (today_str f) (datetime_now e SaveTimestamp)
                               (length unique) unique
                        \<or> c = Truncated)))
           \<and> (file_write e (csv_file f) (CsvFile unique) = WriteOk \<longrightarrow>
                  files w' (csv_file f) = Some (CsvFile unique))
           \<and> (file_write e (csv_file f) (CsvFile unique) = WriteOk
                \<and> file_write e (json_file f)
                     (JsonFile (today_str f) (datetime_now e SaveTimestamp)
                        (length unique) unique) = WriteOk \<longrightarrow>
                  files w' (json_file f)
                  = Some (JsonFile (today_str f) (datetime_now e SaveTimestamp)
                            (length unique) unique))"
proof -
  have paths: "csv_file f \<noteq> json_file f"
    unfolding init by (simp add: GlobalNewsFetcher_init_def) (simp add: u_def)
  have f_eq: "fetched = all_fetched e f"
    using fetched by (simp only: fetched_eq)
  note main = collect_all_news_main [OF guard key_missing_Some [OF key], of e]
  from hashable obtain unique where rd: "remove_duplicates fetched = Inr unique"
    using remove_duplicates_Inr_iff [of fetched] by blast
  with main run f_eq
  have r: "r = Inr [(u ''status'', JStr (u ''success'')),
                      (u ''date'', JStr (today_str f)),
                      (u ''total_articles'', JInt (int (length unique))),
                      (u ''files'', JArr [JStr (csv_file f), JStr (json_file f)])]"
    and w': "w' = save_to_files e f unique (log_calls (all_calls f) w)"
    by simp_all
  have d: "distinct (map (\<lambda>a. hash_key (url a)) unique)"
    using remove_duplicates_keys [OF rd] by simp
  have fo: "unique = first_occurrences fetched"
    by (rule remove_duplicates_first_occurrences [OF rd])
  have fs: "\<forall>p c. files w' p = Some c \<longrightarrow>
                  files w p = Some c
                \<or> (p = csv_file f \<and> (c = CsvFile unique \<or> c = Truncated))
                \<or> (p = json_file f
                    \<and> (c = JsonFile (today_str f) (datetime_now e SaveTimestamp)
                               (length unique) unique
                        \<or> c = Truncated))"
    using files_save_to_files [of e f unique "log_calls (all_calls f) w"]
    unfolding w' by simp
  have c: "file_write e (csv_file f) (CsvFile unique) = WriteOk \<longrightarrow>
                  files w' (csv_file f) = Some (CsvFile unique)"
    unfolding w' using files_save_csv_ok [OF _ paths] by blast
  have j: "file_write e (csv_file f) (CsvFile unique) = WriteOk
                \<and> file_write e (json_file f)
                     (JsonFile (today_str f) (datetime_now e SaveTimestamp)
                        (length unique) unique) = WriteOk \<longrightarrow>
                  files w' (json_file f)
                  = Some (JsonFile (today_str f) (datetime_now e SaveTimestamp)
                            (length unique) unique)"
    unfolding w' using files_save_json_ok by blast
  from rd r d fo fs c j show ?thesis by blast
qed

lemma sample_dedup:
  "remove_duplicates (all_fetched env_sample fetcher_keyed) = Inr sample_unique"
  by (simp add: all_fetched_def countries_and_categories_def fetcher_keyed_def
      GlobalNewsFetcher_init_def default_rss_sources_def settings_keyed_def
      api_articles_def api_result_def api_request_def build_params_def
      rss_articles_def rss_result_def process_rss_entry_def sample_entry_def
      env_sample_def read_response_def sample_response_def
      sample_raw_def process_article_def u_def str_of_nat.simps
      remove_duplicates_def sample_unique_def sample_first_def sample_second_def)

lemma fetcher_keyed_fields:
  "api_key fetcher_keyed = Some (u ''k'')"
  "today_str fetcher_keyed = u ''20240101''"
  "csv_file fetcher_keyed = u ''internet_killer/data/news_data_20240101.csv''"
  "json_file fetcher_keyed = u ''internet_killer/data/news_data_20240101.json''"
  by (simp_all add: fetcher_keyed_def GlobalNewsFetcher_init_def settings_keyed_def u_def)

lemma fetcher_keyed_paths: "csv_file fetcher_keyed \<noteq> json_file fetcher_keyed"
  by (simp add: fetcher_keyed_fields) (simp add: u_def)

lemma fetcher_keyed_guard:
  "\<not> (check_today_data_exists fetcher_keyed world_empty \<and> \<not> force_update)"
  by (simp add: check_today_data_exists_def world_empty_def)

lemma u_k_nonempty: "u ''k'' \<noteq> []"
  by (simp add: u_def)

theorem persisted_urls_unique_witness:
  "\<not> (check_today_data_exists fetcher_keyed world_empty \<and> \<not> False)
   \<and> api_key fetcher_keyed = Some (u ''k'') \<and> u ''k'' \<noteq> []
   \<and> fetcher_keyed = GlobalNewsFetcher_init settings_keyed (u ''20240101'')
   \<and> remove_duplicates
        (concat (map (\<lambda>c. fst (fetch_news_by_config env_sample fetcher_keyed c world_empty))
                   countries_and_categories)
         @ concat (map (\<lambda>rc. fst (fetch_rss_news env_sample rc world_empty))
                     (rss_sources fetcher_keyed))) = Inr sample_unique
   \<and> distinct (map (\<lambda>a. hash_key (url a)) sample_unique)
   \<and> sample_unique = first_occurrences
        (concat (map (\<lambda>c. fst (fetch_news_by_config env_sample fetcher_keyed c world_empty))
                   countries_and_categories)
         @ concat (map (\<lambda>rc. fst (fetch_rss_news env_sample rc world_empty))
                     (rss_sources fetcher_keyed)))
   \<and> files (snd (collect_all_news env_sample fetcher_keyed False world_empty))
        (csv_file fetcher_keyed) = Some (CsvFile sample_unique)"
proof -
  let ?fetched =
    "concat (map (\<lambda>c. fst (fetch_news_by_config env_sample fetcher_keyed c world_empty))
               countries_and_categories)
     @ concat (map (\<lambda>rc. fst (fetch_rss_news env_sample rc world_empty))
                 (rss_sources fetcher_keyed))"
  have rd: "remove_duplicates ?fetched = Inr sample_unique"
    by (simp only: fetched_eq sample_dedup)
  then have h: "\<forall>a\<in>set ?fetched. \<exists>h. hash_key (url a) = Inr h"
    using remove_duplicates_Inr_iff [of ?fetched] by blast
  have run: "collect_all_news env_sample fetcher_keyed False world_empty
             = (fst (collect_all_news env_sample fetcher_keyed False world_empty),
                snd (collect_all_news env_sample fetcher_keyed False world_empty))"
    by simp
  have ok: "file_write env_sample (csv_file fetcher_keyed) (CsvFile sample_unique) = WriteOk"
    by (simp add: env_sample_def)
  from persisted_urls_unique [OF fetcher_keyed_guard fetcher_keyed_fields(1) u_k_nonempty
      fetcher_keyed_def refl h run]
  have "distinct (map (\<lambda>a. hash_key (url a)) sample_unique)
        \<and> sample_unique = first_occurrences ?fetched
        \<and> files (snd (collect_all_news env_sample fetcher_keyed False world_empty))
             (csv_file fetcher_keyed) = Some (CsvFile sample_unique)"
    using ok by (auto simp add: rd)
  with rd fetcher_keyed_guard fetcher_keyed_fields(1) u_k_nonempty fetcher_keyed_def
  show ?thesis by blast
qed

lemma fetched_sources_only:
  "all_fetched (sources_only_env (JObj [(u ''articles'', JArr raws)]) wo) fetcher_keyed
   = (case process_articles (sources_only_env (JObj [(u ''articles'', JArr raws)]) wo)
             \<lparr>cfg_country = None, cfg_category = None,
               cfg_sources = Some (u ''bbc-news,cnn,reuters,associated-press,techcrunch''),
               cfg_name = [44544, 47196, 48268, 32, 51452, 50836, 32, 47588, 52404]\<rparr>
             raws 0 [] of
        Inl err \<Rightarrow> [] | Inr articles \<Rightarrow> articles)"
  by (simp add: all_fetched_def countries_and_categories_def fetcher_keyed_def
      GlobalNewsFetcher_init_def default_rss_sources_def settings_keyed_def
      api_articles_def api_result_def api_request_def build_params_def
      rss_articles_def rss_result_def sources_only_env_def read_response_def u_def)

lemma fetched_bad_url:
  "all_fetched (sources_only_env bad_url_response WriteOk) fetcher_keyed
   = [global_article 0 ''A'' (JArr [JStr (u ''x/1'')]),
      global_article 1 ''B'' (JArr [JStr (u ''x/1'')])]"
  unfolding bad_url_response_def fetched_sources_only
  by (simp add: process_article_def bad_raw_def global_article_def sources_only_env_def
      u_def str_of_nat.simps)

lemma fetch_global_sources_only:
  "fst (fetch_news_by_config (sources_only_env (JObj [(u ''articles'', JArr raws)]) wo)
          fetcher_keyed config_global world_empty)
   = all_fetched (sources_only_env (JObj [(u ''articles'', JArr raws)]) wo) fetcher_keyed"
  unfolding fetched_sources_only
  by (simp add: fetch_news_by_config_eq api_articles_def api_result_def api_request_def
      build_params_def config_global_def sources_only_env_def read_response_def u_def)

text \<open>
  C1 as stated fails.  The url of an API article is stored as the response has it; when
  it is a JSON list, \<open>_remove_duplicates\<close> raises \<open>TypeError\<close> (a list cannot be a member
  of a set), outside every \<open>try\<close>.  Here two fetched articles share such a url, every
  write would succeed, and yet the call raises and neither file is written: no
  first occurrence survives.
\<close>

theorem unhashable_url_counterexample:
  "config_global \<in> set countries_and_categories
   \<and> fst (fetch_news_by_config (sources_only_env bad_url_response WriteOk)
            fetcher_keyed config_global world_empty)
     = [global_article 0 ''A'' (JArr [JStr (u ''x/1'')]),
        global_article 1 ''B'' (JArr [JStr (u ''x/1'')])]
   \<and> url (global_article 0 ''A'' (JArr [JStr (u ''x/1'')]))
     = url (global_article 1 ''B'' (JArr [JStr (u ''x/1'')]))
   \<and> fst (collect_all_news (sources_only_env bad_url_response WriteOk)
            fetcher_keyed False world_empty) = Inl TypeError
   \<and> files (snd (collect_all_news (sources_only_env bad_url_response WriteOk)
                   fetcher_keyed False world_empty)) (csv_file fetcher_keyed) = None
   \<and> files (snd (collect_all_news (sources_only_env bad_url_response WriteOk)
                   fetcher_keyed False world_empty)) (json_file fetcher_keyed) = None"
proof -
  have k: "\<not> key_missing fetcher_keyed"
    by (rule key_missing_Some [OF fetcher_keyed_fields(1) u_k_nonempty])
  have m: "config_global \<in> set countries_and_categories"
    by (simp add: config_global_def countries_and_categories_def)
  have one: "fst (fetch_news_by_config (sources_only_env bad_url_response WriteOk)
            fetcher_keyed config_global world_empty)
     = [global_article 0 ''A'' (JArr [JStr (u ''x/1'')]),
        global_article 1 ''B'' (JArr [JStr (u ''x/1'')])]"
    using fetched_bad_url
    by (simp only: bad_url_response_def fetch_global_sources_only)
  have rd: "remove_duplicates
              (all_fetched (sources_only_env bad_url_response WriteOk) fetcher_keyed)
            = Inl TypeError"
    by (simp add: fetched_bad_url remove_duplicates_def global_article_def)
  have run: "collect_all_news (sources_only_env bad_url_response WriteOk)
               fetcher_keyed False world_empty
             = (Inl TypeError, log_calls (all_calls fetcher_keyed) world_empty)"
    by (simp add: collect_all_news_main [OF fetcher_keyed_guard k] rd)
  have same: "url (global_article 0 ''A'' (JArr [JStr (u ''x/1'')]))
     = url (global_article 1 ''B'' (JArr [JStr (u ''x/1'')]))"
    by (simp add: global_article_def)
  show ?thesis
    unfolding run fst_conv snd_conv
    using m one same by (simp add: world_empty_def)
qed

section \<open>The idempotence guard\<close>

lemma u_status_distinct:
  "u ''already_exists'' \<noteq> u ''success''" "u ''error'' \<noteq> u ''success''"
  "u ''success'' \<noteq> u ''already_exists''"
  by (simp_all add: u_def)

lemma exists_after_save:
  assumes "file_write e (csv_file f) (CsvFile arts) = WriteOk"
      and "file_write e (json_file f)
             (JsonFile (today_str f) (datetime_now e SaveTimestamp) (length arts) arts) = WriteOk"
  shows "check_today_data_exists f (save_to_files e f arts w)"
  using assms
  by (simp add: check_today_data_exists_def save_to_files_def write_file_def)

lemma already_exists_branch:
  "check_today_data_exists f w \<Longrightarrow>
     collect_all_news e f False w =
       (Inr [(u ''status'', JStr (u ''already_exists'')), (u ''date'', JStr (today_str f))], w)"
  by (simp add: collect_all_news_def)

lemma success_gives_saved_world:
  assumes "collect_all_news e f force_update w = (Inr res, w1)"
      and "map_of res (u ''status'') = Some (JStr (u ''success''))"
  shows "\<exists>arts. remove_duplicates (all_fetched e f) = Inr arts
              \<and> w1 = save_to_files e f arts (log_calls (all_calls f) w)"
proof (cases "check_today_data_exists f w \<and> \<not> force_update")
  case True
  with assms show ?thesis
    by (auto simp add: collect_all_news_def u_status_distinct)
next
  case guard: False
  show ?thesis
  proof (cases "key_missing f")
    case True
    with guard assms show ?thesis
      by (auto simp add: collect_all_news_def key_missing_def u_status_distinct)
  next
    case False
    from collect_all_news_main [OF guard False, of e] assms(1) show ?thesis
      by (auto split: sum.splits)
  qed
qed

text \<open>
  C2, as the code has it.  With both of today's files on disk and \<open>force_update\<close> false,
  \<open>collect_all_news\<close> returns \<open>{"status": "already_exists", "date": today}\<close> and leaves the
  world as it was: no network call, no file written.  A second call with the same
  collector takes this branch after a first call that returned status \<open>success\<close>
  \<^emph>\<open>and whose CSV and JSON writes both succeeded\<close>: the two writes the first call makes
  are those of its deduplicated list \<open>unique\<close>.  The status alone does not tell.
\<close>

theorem already_exists_guard:
  "(check_today_data_exists f w \<longrightarrow>
      collect_all_news e f False w =
        (Inr [(u ''status'', JStr (u ''already_exists'')), (u ''date'', JStr (today_str f))], w))
   \<and> (collect_all_news e1 f force_update w0 = (Inr res, w1)
        \<and> map_of res (u ''status'') = Some (JStr (u ''success''))
        \<and> remove_duplicates
            (concat (map (\<lambda>c. fst (fetch_news_by_config e1 f c w0)) countries_and_categories)
             @ concat (map (\<lambda>rc. fst (fetch_rss_news e1 rc w0)) (rss_sources f)))
            = Inr unique
        \<and> file_write e1 (csv_file f) (CsvFile unique) = WriteOk
        \<and> file_write e1 (json_file f)
             (JsonFile (today_str f) (datetime_now e1 SaveTimestamp) (length unique) unique)
            = WriteOk \<longrightarrow>
      collect_all_news e2 f False w1 =
        (Inr [(u ''status'', JStr (u ''already_exists'')), (u ''date'', JStr (today_str f))], w1))"
proof (rule conjI; rule impI)
  assume "check_today_data_exists f w"
  then show "collect_all_news e f False w =
        (Inr [(u ''status'', JStr (u ''already_exists'')), (u ''date'', JStr (today_str f))], w)"
    by (rule already_exists_branch)
next
  assume a: "collect_all_news e1 f force_update w0 = (Inr res, w1)
        \<and> map_of res (u ''status'') = Some (JStr (u ''success''))
        \<and> remove_duplicates
            (concat (map (\<lambda>c. fst (fetch_news_by_config e1 f c w0)) countries_and_categories)
             @ concat (map (\<lambda>rc. fst (fetch_rss_news e1 rc w0)) (rss_sources f)))
            = Inr unique
        \<and> file_write e1 (csv_file f) (CsvFile unique) = WriteOk
        \<and> file_write e1 (json_file f)
             (JsonFile (today_str f) (datetime_now e1 SaveTimestamp) (length unique) unique)
            = WriteOk"
  then have run: "collect_all_news e1 f force_update w0 = (Inr res, w1)"
    and st: "map_of res (u ''status'') = Some (JStr (u ''success''))"
    and rd: "remove_duplicates (all_fetched e1 f) = Inr unique"
    and csv: "file_write e1 (csv_file f) (CsvFile unique) = WriteOk"
    and json: "file_write e1 (json_file f)
             (JsonFile (today_str f) (datetime_now e1 SaveTimestamp) (length unique) unique)
            = WriteOk"
    by (simp_all only: fetched_eq)
  from success_gives_saved_world [OF run st] rd
  have "w1 = save_to_files e1 f unique (log_calls (all_calls f) w0)"
    by auto
  then have "check_today_data_exists f w1"
    using exists_after_save [OF csv json] by simp
  then show "collect_all_news e2 f False w1 =
        (Inr [(u ''status'', JStr (u ''already_exists'')), (u ''date'', JStr (today_str f))], w1)"
    by (rule already_exists_branch)
qed

lemma all_fetched_writable: "all_fetched env_writable fetcher_keyed = []"
  by (simp add: all_fetched_def api_articles_def api_result_def rss_articles_def rss_result_def
      read_response_def env_writable_def env_offline_def split: sum.splits)

lemma first_call_writable:
  "collect_all_news env_writable fetcher_keyed False world_empty =
     (Inr [(u ''status'', JStr (u ''success'')),
           (u ''date'', JStr (today_str fetcher_keyed)),
           (u ''total_articles'', JInt 0),
           (u ''files'', JArr [JStr (csv_file fetcher_keyed), JStr (json_file fetcher_keyed)])],
      save_to_files env_writable fetcher_keyed [] (log_calls (all_calls fetcher_keyed) world_empty))"
  by (simp add: collect_all_news_main [OF fetcher_keyed_guard
        key_missing_Some [OF fetcher_keyed_fields(1) u_k_nonempty]] all_fetched_writable)

theorem already_exists_guard_witness:
  "collect_all_news env_writable fetcher_keyed False world_empty =
     (Inr [(u ''status'', JStr (u ''success'')),
           (u ''date'', JStr (today_str fetcher_keyed)),
           (u ''total_articles'', JInt 0),
           (u ''files'', JArr [JStr (csv_file fetcher_keyed), JStr (json_file fetcher_keyed)])],
      save_to_files env_writable fetcher_keyed [] (log_calls (all_calls fetcher_keyed) world_empty))
   \<and> remove_duplicates
        (concat (map (\<lambda>c. fst (fetch_news_by_config env_writable fetcher_keyed c world_empty))
                   countries_and_categories)
         @ concat (map (\<lambda>rc. fst (fetch_rss_news env_writable rc world_empty))
                     (rss_sources fetcher_keyed))) = Inr []
   \<and> file_write env_writable (csv_file fetcher_keyed) (CsvFile []) = WriteOk
   \<and> file_write env_writable (json_file fetcher_keyed)
        (JsonFile (today_str fetcher_keyed) (datetime_now env_writable SaveTimestamp)
           (length ([] :: article list)) []) = WriteOk
   \<and> check_today_data_exists fetcher_keyed
       (save_to_files env_writable fetcher_keyed [] (log_calls (all_calls fetcher_keyed) world_empty))
   \<and> collect_all_news env_offline fetcher_keyed False
       (save_to_files env_writable fetcher_keyed [] (log_calls (all_calls fetcher_keyed) world_empty))
     = (Inr [(u ''status'', JStr (u ''already_exists'')),
             (u ''date'', JStr (today_str fetcher_keyed))],
        save_to_files env_writable fetcher_keyed []
          (log_calls (all_calls fetcher_keyed) world_empty))"
proof -
  let ?w1 = "save_to_files env_writable fetcher_keyed []
               (log_calls (all_calls fetcher_keyed) world_empty)"
  have rd: "remove_duplicates
        (concat (map (\<lambda>c. fst (fetch_news_by_config env_writable fetcher_keyed c world_empty))
                   countries_and_categories)
         @ concat (map (\<lambda>rc. fst (fetch_rss_news env_writable rc world_empty))
                     (rss_sources fetcher_keyed))) = Inr []"
    by (simp only: fetched_eq all_fetched_writable remove_duplicates_Nil)
  have csv: "file_write env_writable (csv_file fetcher_keyed) (CsvFile []) = WriteOk"
    and json: "file_write env_writable (json_file fetcher_keyed)
        (JsonFile (today_str fetcher_keyed) (datetime_now env_writable SaveTimestamp)
           (length ([] :: article list)) []) = WriteOk"
    by (simp_all add: env_writable_def)
  have ex: "check_today_data_exists fetcher_keyed ?w1"
    by (rule exists_after_save [OF csv json])
  have st: "map_of [(u ''status'', JStr (u ''success'')),
           (u ''date'', JStr (today_str fetcher_keyed)),
           (u ''total_articles'', JInt 0),
           (u ''files'', JArr [JStr (csv_file fetcher_keyed), JStr (json_file fetcher_keyed)])]
          (u ''status'') = Some (JStr (u ''success''))"
    by simp
  from already_exists_guard [where f = fetcher_keyed and w = ?w1 and e = env_offline
      and ?w0.0 = world_empty and ?e1.0 = env_writable and force_update = False
      and ?w1.0 = ?w1 and ?e2.0 = env_offline and unique = "[]"]
    first_call_writable st rd csv json ex
  show ?thesis by blast
qed

text \<open>
  C2 as stated fails: on a machine without network whose disk refuses every write, the
  first call returns status \<open>success\<close> (the failed save is swallowed), the files are not
  there, and the second call does not return \<open>already_exists\<close> but goes to the network
  again.
\<close>

theorem second_call_after_success_counterexample:
  "fst (collect_all_news env_offline fetcher_keyed False world_empty)
     = Inr [(u ''status'', JStr (u ''success'')),
            (u ''date'', JStr (u ''20240101'')),
            (u ''total_articles'', JInt 0),
            (u ''files'', JArr [JStr (u ''internet_killer/data/news_data_20240101.csv''),
                                JStr (u ''internet_killer/data/news_data_20240101.json'')])]
   \<and> fst (collect_all_news env_offline fetcher_keyed False
            (snd (collect_all_news env_offline fetcher_keyed False world_empty)))
     \<noteq> Inr [(u ''status'', JStr (u ''already_exists'')), (u ''date'', JStr (u ''20240101''))]
   \<and> length (net_log (snd (collect_all_news env_offline fetcher_keyed False
            (snd (collect_all_news env_offline fetcher_keyed False world_empty)))))
     > length (net_log (snd (collect_all_news env_offline fetcher_keyed False world_empty)))"
proof -
  let ?f = "fetcher_keyed"
  have k: "\<not> key_missing ?f"
    by (rule key_missing_Some [OF fetcher_keyed_fields(1) u_k_nonempty])
  have first: "collect_all_news env_offline ?f False world_empty =
     (Inr [(u ''status'', JStr (u ''success'')),
               (u ''date'', JStr (today_str ?f)),
               (u ''total_articles'', JInt 0),
               (u ''files'', JArr [JStr (csv_file ?f), JStr (json_file ?f)])],
      save_to_files env_offline ?f [] (log_calls (all_calls ?f) world_empty))"
    by (simp add: collect_all_news_main [OF fetcher_keyed_guard k])
  let ?w1 = "save_to_files env_offline ?f [] (log_calls (all_calls ?f) world_empty)"
  have n1: "\<not> (check_today_data_exists ?f ?w1 \<and> \<not> False)"
    by (simp add: check_today_data_exists_def world_empty_def)
  have second: "collect_all_news env_offline ?f False ?w1 =
     (Inr [(u ''status'', JStr (u ''success'')),
               (u ''date'', JStr (today_str ?f)),
               (u ''total_articles'', JInt 0),
               (u ''files'', JArr [JStr (csv_file ?f), JStr (json_file ?f)])],
      save_to_files env_offline ?f [] (log_calls (all_calls ?f) ?w1))"
    by (simp add: collect_all_news_main [OF n1 k])
  have calls: "all_calls ?f \<noteq> []"
    using all_calls_keyed by (simp add: fetcher_keyed_def)
  show ?thesis
    unfolding first second fst_conv snd_conv fetcher_keyed_fields
    using calls u_status_distinct by simp
qed

section \<open>What a run reads from the environment\<close>

lemma process_article_cong:
  assumes "datetime_now e' = datetime_now e"
  shows "process_article e' config i n a = process_article e config i n a"
  unfolding process_article_def assms ..

lemma process_articles_cong:
  assumes "datetime_now e' = datetime_now e"
  shows "process_articles e' config raws i acc = process_articles e config raws i acc"
  by (induction raws arbitrary: i acc)
    (simp_all add: process_article_cong [OF assms] split: sum.splits option.splits)

lemma read_response_cong:
  assumes "datetime_now e' = datetime_now e"
  shows "read_response e' config r = read_response e config r"
  unfolding read_response_def process_articles_cong [OF assms] ..

lemma process_rss_entry_cong:
  assumes "datetime_now e' = datetime_now e"
  shows "process_rss_entry e' rc n en = process_rss_entry e rc n en"
  unfolding process_rss_entry_def assms ..

lemma process_rss_entries_cong:
  assumes "datetime_now e' = datetime_now e"
  shows "process_rss_entries e' rc ens acc = process_rss_entries e rc ens acc"
  by (induction ens arbitrary: acc)
    (simp_all add: process_rss_entry_cong [OF assms] split: sum.splits)

lemma api_articles_cong:
  assumes "datetime_now e' = datetime_now e" and "requests_get e' = requests_get e"
  shows "api_articles e' f config = api_articles e f config"
  unfolding api_articles_def api_result_def read_response_cong [OF assms(1)] assms(2) ..

lemma rss_articles_cong:
  assumes "datetime_now e' = datetime_now e" and "feedparser_parse e' = feedparser_parse e"
  shows "rss_articles e' rc = rss_articles e rc"
  unfolding rss_articles_def rss_result_def process_rss_entries_cong [OF assms(1)] assms(2) ..



lemma all_fetched_file_write [simp]:
  "all_fetched (e\<lparr>file_write := fw\<rparr>) f = all_fetched e f"
proof -
  have a: "api_articles (e\<lparr>file_write := fw\<rparr>) f = api_articles e f"
    by (rule ext) (simp add: api_articles_cong [of "e\<lparr>file_write := fw\<rparr>" e])
  have r: "rss_articles (e\<lparr>file_write := fw\<rparr>) = rss_articles e"
    by (rule ext) (simp add: rss_articles_cong [of "e\<lparr>file_write := fw\<rparr>" e])
  show ?thesis
    by (simp add: all_fetched_def a r)
qed

section \<open>Failure of the save\<close>

text \<open>
  C10.  \<open>_save_to_files\<close> has no exception of its own: whatever the disk does with the two
  writes (\<open>fw\<close> is any behaviour of the disk, also one that fails the CSV write, or the
  JSON write, or both), once deduplication has produced the list \<open>unique\<close> the call
  returns the dict with status \<open>success\<close>, the date, \<open>len(unique)\<close> and the two paths.
\<close>

theorem persist_failure_swallowed:
  assumes "\<not> (check_today_data_exists f w \<and> \<not> force_update)"
      and "api_key f = Some k" and "k \<noteq> []"
      and "fetched =
            concat (map (\<lambda>c. fst (fetch_news_by_config e f c w)) countries_and_categories)
            @ concat (map (\<lambda>rc. fst (fetch_rss_news e rc w)) (rss_sources f))"
      and "remove_duplicates fetched = Inr unique"
  shows "fst (collect_all_news (e\<lparr>file_write := fw\<rparr>) f force_update w) =
           Inr [(u ''status'', JStr (u ''success'')),
                (u ''date'', JStr (today_str f)),
                (u ''total_articles'', JInt (int (length unique))),
                (u ''files'', JArr [JStr (csv_file f), JStr (json_file f)])]"
proof -
  have "remove_duplicates (all_fetched e f) = Inr unique"
    using assms(4,5) by (simp only: fetched_eq)
  then show ?thesis
    by (simp add: collect_all_news_main [OF assms(1) key_missing_Some [OF assms(2,3)]])
qed

theorem persist_failure_swallowed_witness:
  "\<not> (check_today_data_exists fetcher_keyed world_empty \<and> \<not> False)
   \<and> api_key fetcher_keyed = Some (u ''k'') \<and> u ''k'' \<noteq> []
   \<and> remove_duplicates
        (concat (map (\<lambda>c. fst (fetch_news_by_config env_sample fetcher_keyed c world_empty))
                   countries_and_categories)
         @ concat (map (\<lambda>rc. fst (fetch_rss_news env_sample rc world_empty))
                     (rss_sources fetcher_keyed))) = Inr sample_unique
   \<and> fst (collect_all_news (env_sample\<lparr>file_write := (\<lambda>p c. OpenFails)\<rparr>)
            fetcher_keyed False world_empty) =
           Inr [(u ''status'', JStr (u ''success'')),
                (u ''date'', JStr (u ''20240101'')),
                (u ''total_articles'', JInt 2),
                (u ''files'', JArr [JStr (u ''internet_killer/data/news_data_20240101.csv''),
                                    JStr (u ''internet_killer/data/news_data_20240101.json'')])]"
proof -
  have rd: "remove_duplicates
        (concat (map (\<lambda>c. fst (fetch_news_by_config env_sample fetcher_keyed c world_empty))
                   countries_and_categories)
         @ concat (map (\<lambda>rc. fst (fetch_rss_news env_sample rc world_empty))
                     (rss_sources fetcher_keyed))) = Inr sample_unique"
    by (simp only: fetched_eq sample_dedup)
  have len: "int (length sample_unique) = 2"
    by (simp add: sample_unique_def)
  note inst = persist_failure_swallowed [where e = env_sample and f = fetcher_keyed
      and w = world_empty and force_update = False and fw = "\<lambda>p c. OpenFails",
      OF fetcher_keyed_guard fetcher_keyed_fields(1) u_k_nonempty refl rd]
  from inst have "fst (collect_all_news (env_sample\<lparr>file_write := (\<lambda>p c. OpenFails)\<rparr>)
            fetcher_keyed False world_empty) =
           Inr [(u ''status'', JStr (u ''success'')),
                (u ''date'', JStr (u ''20240101'')),
                (u ''total_articles'', JInt 2),
                (u ''files'', JArr [JStr (u ''internet_killer/data/news_data_20240101.csv''),
                                    JStr (u ''internet_killer/data/news_data_20240101.json'')])]"
    by (simp only: len fetcher_keyed_fields)
  with rd fetcher_keyed_guard fetcher_keyed_fields(1) u_k_nonempty show ?thesis
    by blast
qed

section \<open>One article of the headline API\<close>

lemma guard_eq_Some:
  "((if \<not> b then Inr None else m) = Inr (Some x)) \<longleftrightarrow> (b \<and> m = Inr (Some x))"
  by simp

lemma process_article_SomeD:
  assumes "process_article e config i n a = Inr (Some art)"
  shows "\<exists>t d c cont.
           subscript a (u ''title'') = Inr t \<and> truthy t
         \<and> subscript a (u ''description'') = Inr d \<and> truthy d
         \<and> dict_get a (u ''content'') JNull = Inr c
         \<and> (if truthy c
             then and_then (dict_get a (u ''content'') (JStr [])) (slice_ellipsis 1000)
             else Inr (JStr [])) = Inr cont
         \<and> title art = t \<and> description art = d \<and> content art = cont"
  using assms unfolding process_article_def and_then_eq_Inr guard_eq_Some
  by (elim exE conjE) clarsimp

lemma dict_get_default_irrelevant:
  "dict_get a key JNull = Inr (JStr s) \<Longrightarrow> dict_get a key dflt = Inr (JStr s)"
  by (cases a) (auto split: option.splits)

lemma process_articles_origin:
  assumes "process_articles e config raws i acc = Inr out" and "art \<in> set out"
  shows "art \<in> set acc
       \<or> (\<exists>a j n. a \<in> set raws \<and> process_article e config j n a = Inr (Some art))"
  using assms
proof (induction raws arbitrary: i acc)
  case Nil
  then show ?case by simp
next
  case (Cons a raws)
  show ?case
  proof (cases "process_article e config i (length acc) a")
    case (Inl err)
    with Cons.prems show ?thesis by simp
  next
    case (Inr r)
    show ?thesis
    proof (cases r)
      case None
      with Inr Cons.prems have "process_articles e config raws (Suc i) acc = Inr out"
        by simp
      from Cons.IH [OF this Cons.prems(2)] show ?thesis by auto
    next
      case (Some p)
      with Inr Cons.prems have "process_articles e config raws (Suc i) (acc @ [p]) = Inr out"
        by simp
      from Cons.IH [OF this Cons.prems(2)] Inr Some show ?thesis by auto
    qed
  qed
qed

lemma api_articles_origin:
  assumes "art \<in> set (api_articles e f config)"
  shows "\<exists>p status data arts raws a j n.
           build_params f config = Inr p
         \<and> requests_get e (api_request f p) = Response status (Some data)
         \<and> dict_get data (u ''articles'') (JArr []) = Inr arts
         \<and> py_iter arts = Inr raws
         \<and> a \<in> set raws
         \<and> process_article e config j n a = Inr (Some art)"
proof -
  from assms obtain out where out: "api_result e f config = Inr out" and mem: "art \<in> set out"
    by (cases "api_result e f config") (auto simp add: api_articles_def)
  from out obtain p where p: "build_params f config = Inr p"
    and rr: "read_response e config (requests_get e (api_request f p)) = Inr out"
    by (cases "build_params f config") (auto simp add: api_result_def)
  from rr obtain status data where resp: "requests_get e (api_request f p) = Response status (Some data)"
    and body: "and_then (dict_get data (u ''totalResults'') (JInt 0)) (\<lambda>total.
               and_then (dict_get data (u ''articles'') (JArr [])) (\<lambda>arts.
               and_then (py_iter arts) (\<lambda>raws. process_articles e config raws 0 []))) = Inr out"
    by (auto simp add: read_response_def split: http_outcome.splits if_splits option.splits)
  from body obtain arts raws where arts: "dict_get data (u ''articles'') (JArr []) = Inr arts"
    and raws: "py_iter arts = Inr raws"
    and loop: "process_articles e config raws 0 [] = Inr out"
    by (auto simp add: and_then_eq_Inr)
  from process_articles_origin [OF loop mem] obtain a j n where
    "a \<in> set raws" "process_article e config j n a = Inr (Some art)"
    by auto
  with p resp arts raws show ?thesis by blast
qed

text \<open>
  C5.  \<open>process_article\<close> is the body of the loop that builds the stored dict of one
  headline-API article.  When the article is stored and its \<open>content\<close> is a string of
  more than 1000 characters, the stored \<open>content\<close> is the first 1000 characters followed
  by the three characters \<open>...\<close>, 1003 characters in all.
\<close>

theorem content_truncated:
  assumes "process_article e config i n a = Inr (Some art)"
      and "dict_get a (u ''content'') JNull = Inr (JStr s)"
      and "1000 < length s"
  shows "content art = JStr (take 1000 s @ u ''...'')
         \<and> length (take 1000 s @ u ''...'') = 1003"
proof -
  from process_article_SomeD [OF assms(1)] assms(2) obtain cont where
    c: "(if truthy (JStr s)
         then and_then (dict_get a (u ''content'') (JStr [])) (slice_ellipsis 1000)
         else Inr (JStr [])) = Inr cont" and art: "content art = cont"
    by auto
  have "truthy (JStr s)" using assms(3) by auto
  with c dict_get_default_irrelevant [OF assms(2), of "JStr []"]
  have "cont = JStr (take 1000 s @ u ''...'')" by simp
  with art assms(3) show ?thesis by (simp add: u_def)
qed

lemma process_long_raw:
  "process_article env_sample config_kr 0 0 long_raw = Inr (Some long_article)"
  by (simp add: process_article_def long_raw_def config_kr_def long_article_def env_sample_def
      u_def str_of_nat.simps)

theorem content_truncated_witness:
  "process_article env_sample config_kr 0 0 long_raw = Inr (Some long_article)
   \<and> dict_get long_raw (u ''content'') JNull = Inr (JStr (replicate 1001 97))
   \<and> 1000 < length (replicate 1001 (97::nat))
   \<and> content long_article = JStr (take 1000 (replicate 1001 97) @ u ''...'')
   \<and> length (take 1000 (replicate 1001 (97::nat)) @ u ''...'') = 1003"
proof -
  have c: "dict_get long_raw (u ''content'') JNull = Inr (JStr (replicate 1001 97))"
    by (simp add: long_raw_def u_def)
  have l: "1000 < length (replicate 1001 (97::nat))"
    by simp
  from content_truncated [OF process_long_raw c l] process_long_raw c l show ?thesis
    by blast
qed

text \<open>
  C6.  A headline-API article is stored only if \<open>article["title"]\<close> and
  \<open>article["description"]\<close> are both there and both true as Python tests them (for a
  string: not empty; \<open>None\<close> fails too), and the stored title and description are those
  two values.  An article whose title or description is the empty string is never stored.
  Hence every article in the list \<open>_fetch_news_by_config\<close> returns has a non-empty title
  and a non-empty description, and stems from an article of the response.
\<close>

theorem title_and_description_required:
  "(process_article e config i n a = Inr (Some art) \<longrightarrow>
      (\<exists>t d. subscript a (u ''title'') = Inr t \<and> truthy t
           \<and> subscript a (u ''description'') = Inr d \<and> truthy d
           \<and> title art = t \<and> description art = d))
   \<and> (subscript a0 (u ''title'') = Inr (JStr [])
        \<or> subscript a0 (u ''description'') = Inr (JStr []) \<longrightarrow>
      process_article e config i0 n0 a0 \<noteq> Inr (Some art0))
   \<and> (art' \<in> set (fst (fetch_news_by_config e f config w)) \<longrightarrow>
      truthy (title art') \<and> truthy (description art')
      \<and> title art' \<noteq> JStr [] \<and> description art' \<noteq> JStr []
      \<and> (\<exists>p status data arts raws a' j m.
             build_params f config = Inr p
           \<and> requests_get e (api_request f p) = Response status (Some data)
           \<and> dict_get data (u ''articles'') (JArr []) = Inr arts
           \<and> py_iter arts = Inr raws
           \<and> a' \<in> set raws
           \<and> process_article e config j m a' = Inr (Some art')
           \<and> subscript a' (u ''title'') = Inr (title art')
           \<and> subscript a' (u ''description'') = Inr (description art')))"
proof (rule conjI [OF _ conjI]; rule impI)
  assume "process_article e config i n a = Inr (Some art)"
  from process_article_SomeD [OF this]
  show "\<exists>t d. subscript a (u ''title'') = Inr t \<and> truthy t
           \<and> subscript a (u ''description'') = Inr d \<and> truthy d
           \<and> title art = t \<and> description art = d"
    by blast
next
  assume empty: "subscript a0 (u ''title'') = Inr (JStr [])
        \<or> subscript a0 (u ''description'') = Inr (JStr [])"
  show "process_article e config i0 n0 a0 \<noteq> Inr (Some art0)"
  proof
    assume "process_article e config i0 n0 a0 = Inr (Some art0)"
    from process_article_SomeD [OF this] obtain t d where
      t: "subscript a0 (u ''title'') = Inr t" "truthy t"
      and d: "subscript a0 (u ''description'') = Inr d" "truthy d"
      by blast
    from empty show False
    proof
      assume "subscript a0 (u ''title'') = Inr (JStr [])"
      with t(1) have "t = JStr []" by simp
      with t(2) show False by simp
    next
      assume "subscript a0 (u ''description'') = Inr (JStr [])"
      with d(1) have "d = JStr []" by simp
      with d(2) show False by simp
    qed
  qed
next
  assume "art' \<in> set (fst (fetch_news_by_config e f config w))"
  then have "art' \<in> set (api_articles e f config)"
    by (simp add: fetch_news_by_config_eq)
  from api_articles_origin [OF this] obtain p status data arts raws a' j m where
    o: "build_params f config = Inr p"
       "requests_get e (api_request f p) = Response status (Some data)"
       "dict_get data (u ''articles'') (JArr []) = Inr arts"
       "py_iter arts = Inr raws" "a' \<in> set raws"
    and pa: "process_article e config j m a' = Inr (Some art')"
    by blast
  from process_article_SomeD [OF pa] have
    t: "subscript a' (u ''title'') = Inr (title art')" "truthy (title art')"
    and d: "subscript a' (u ''description'') = Inr (description art')" "truthy (description art')"
    by auto
  from t(2) d(2) have ne: "title art' \<noteq> JStr []" "description art' \<noteq> JStr []"
    by auto
  from o pa t d ne
  show "truthy (title art') \<and> truthy (description art')
      \<and> title art' \<noteq> JStr [] \<and> description art' \<noteq> JStr []
      \<and> (\<exists>p status data arts raws a' j m.
             build_params f config = Inr p
           \<and> requests_get e (api_request f p) = Response status (Some data)
           \<and> dict_get data (u ''articles'') (JArr []) = Inr arts
           \<and> py_iter arts = Inr raws
           \<and> a' \<in> set raws
           \<and> process_article e config j m a' = Inr (Some art')
           \<and> subscript a' (u ''title'') = Inr (title art')
           \<and> subscript a' (u ''description'') = Inr (description art'))"
    by blast
qed

lemma fetch_sample_kr:
  "fst (fetch_news_by_config env_sample fetcher_keyed config_kr world_empty)
   = [sample_first, sample_first\<lparr>article_id := JStr ([54620, 44397, 32, 51204, 52404] @ u ''_1''),
                                 title := JStr (u ''B'')\<rparr>]"
  by (simp add: fetch_news_by_config_eq api_articles_def api_result_def api_request_def
      build_params_def config_kr_def fetcher_keyed_def GlobalNewsFetcher_init_def
      settings_keyed_def env_sample_def read_response_def sample_response_def sample_raw_def
      process_article_def sample_first_def u_def str_of_nat.simps)

theorem title_and_description_required_witness:
  "process_article env_sample config_kr 0 0 long_raw = Inr (Some long_article)
   \<and> subscript long_raw (u ''title'') = Inr (title long_article) \<and> truthy (title long_article)
   \<and> subscript long_raw (u ''description'') = Inr (description long_article)
   \<and> truthy (description long_article)
   \<and> subscript empty_description_raw (u ''description'') = Inr (JStr [])
   \<and> process_article env_sample config_kr 0 0 empty_description_raw \<noteq> Inr (Some long_article)
   \<and> sample_first \<in> set (fst (fetch_news_by_config env_sample fetcher_keyed config_kr world_empty))
   \<and> title sample_first \<noteq> JStr [] \<and> description sample_first \<noteq> JStr []"
proof -
  have h2: "subscript empty_description_raw (u ''description'') = Inr (JStr [])"
    by (simp add: empty_description_raw_def u_def)
  have h3: "sample_first \<in> set (fst (fetch_news_by_config env_sample fetcher_keyed config_kr world_empty))"
    by (simp add: fetch_sample_kr)
  from title_and_description_required [where e = env_sample and config = config_kr
      and i = 0 and n = 0 and a = long_raw and art = long_article
      and ?a0.0 = empty_description_raw and ?i0.0 = 0 and ?n0.0 = 0 and ?art0.0 = long_article
      and art' = sample_first and f = fetcher_keyed and w = world_empty]
    process_long_raw h2 h3
  show ?thesis by auto
qed

section \<open>One entry of a feed\<close>








section \<open>The query parameters\<close>

lemma build_params_fixed:
  assumes "c \<in> set countries_and_categories"
  shows "\<exists>p. build_params f c = Inr p
           \<and> map_of p (u ''apiKey'') = Some (case api_key f of None \<Rightarrow> JNull | Some k \<Rightarrow> JStr k)
           \<and> map_of p (u ''pageSize'') = Some (JInt 20)
           \<and> amended_shape (extra_params p)"
  using assms
  by (auto simp add: countries_and_categories_def build_params_def amended_shape_def
      shape_country_def shape_gb_us_def shape_sources_def extra_params_def u_def)

lemma api_calls_fixed:
  assumes "ApiGet r \<in> set (all_calls f)"
  shows "\<exists>c p. c \<in> set countries_and_categories \<and> build_params f c = Inr p
              \<and> r = api_request f p"
proof -
  from assms obtain c where c: "c \<in> set countries_and_categories"
    and m: "ApiGet r \<in> set (api_calls f c)"
    by (auto simp add: all_calls_def)
  from m obtain p where "build_params f c = Inr p" "r = api_request f p"
    by (cases "build_params f c") (simp_all add: api_calls_def)
  with c show ?thesis by blast
qed

lemma net_log_collect_all_news:
  "net_log (snd (collect_all_news e f force_update w)) = net_log w
   \<or> (\<not> key_missing f
       \<and> net_log (snd (collect_all_news e f force_update w)) = net_log w @ all_calls f)"
proof (cases "(check_today_data_exists f w \<and> \<not> force_update) \<or> key_missing f")
  case True
  then show ?thesis
    by (auto simp add: collect_all_news_def key_missing_def)
next
  case False
  then have g: "\<not> (check_today_data_exists f w \<and> \<not> force_update)" and k: "\<not> key_missing f"
    by blast+
  show ?thesis
    using k by (simp add: collect_all_news_main [OF g k] split: sum.splits)
qed

text \<open>
  C8, as the code has it.  Every request that a call of \<open>collect_all_news\<close> sends to the
  headline API goes to \<open>base_url/top-headlines\<close>, carries the configured key as \<open>apiKey\<close>
  and \<open>pageSize = 20\<close>, and its other parameters have one of three shapes: a country with
  an optional category; country \<open>gb\<close> \<^emph>\<open>or\<close> \<open>us\<close> with language \<open>en\<close> and an optional
  category; a source list with language \<open>en\<close>.  This holds for every configuration of
  the fixed list, each of which builds its parameters without exception.
\<close>

theorem api_request_shapes:
  "(\<exists>calls. net_log (snd (collect_all_news e f force_update w)) = net_log w @ calls)
   \<and> (net_log (snd (collect_all_news e f force_update w)) = net_log w @ calls
        \<and> ApiGet r \<in> set calls \<longrightarrow>
      (\<exists>k. api_key f = Some k \<and> k \<noteq> []
         \<and> map_of (req_params r) (u ''apiKey'') = Some (JStr k))
      \<and> req_url r = base_url f @ u ''/top-headlines''
      \<and> map_of (req_params r) (u ''pageSize'') = Some (JInt 20)
      \<and> amended_shape (extra_params (req_params r)))
   \<and> (c \<in> set countries_and_categories \<longrightarrow>
      (\<exists>p. build_params f c = Inr p
         \<and> map_of p (u ''apiKey'') = Some (case api_key f of None \<Rightarrow> JNull | Some k \<Rightarrow> JStr k)
         \<and> map_of p (u ''pageSize'') = Some (JInt 20)
         \<and> amended_shape (extra_params p)))"
proof (rule conjI [OF _ conjI])
  show "\<exists>calls. net_log (snd (collect_all_news e f force_update w)) = net_log w @ calls"
    using net_log_collect_all_news [of e f force_update w] by auto
next
  show "net_log (snd (collect_all_news e f force_update w)) = net_log w @ calls
        \<and> ApiGet r \<in> set calls \<longrightarrow>
      (\<exists>k. api_key f = Some k \<and> k \<noteq> []
         \<and> map_of (req_params r) (u ''apiKey'') = Some (JStr k))
      \<and> req_url r = base_url f @ u ''/top-headlines''
      \<and> map_of (req_params r) (u ''pageSize'') = Some (JInt 20)
      \<and> amended_shape (extra_params (req_params r))"
  proof (rule impI)
    assume a: "net_log (snd (collect_all_news e f force_update w)) = net_log w @ calls
        \<and> ApiGet r \<in> set calls"
    with net_log_collect_all_news [of e f force_update w]
    have k: "\<not> key_missing f" and m: "ApiGet r \<in> set (all_calls f)"
      by auto
    from k obtain key where key: "api_key f = Some key" "key \<noteq> []"
      by (auto simp add: key_missing_def split: option.splits)
    from api_calls_fixed [OF m] obtain c p where
      c: "c \<in> set countries_and_categories" and p: "build_params f c = Inr p"
      and r: "r = api_request f p"
      by blast
    from build_params_fixed [OF c, of f] p key
    have "map_of p (u ''apiKey'') = Some (JStr key)"
      and "map_of p (u ''pageSize'') = Some (JInt 20)"
      and "amended_shape (extra_params p)"
      by auto
    with key r
    show "(\<exists>k. api_key f = Some k \<and> k \<noteq> []
           \<and> map_of (req_params r) (u ''apiKey'') = Some (JStr k))
        \<and> req_url r = base_url f @ u ''/top-headlines''
        \<and> map_of (req_params r) (u ''pageSize'') = Some (JInt 20)
        \<and> amended_shape (extra_params (req_params r))"
      by (simp add: api_request_def)
  qed
next
  show "c \<in> set countries_and_categories \<longrightarrow>
      (\<exists>p. build_params f c = Inr p
         \<and> map_of p (u ''apiKey'') = Some (case api_key f of None \<Rightarrow> JNull | Some k \<Rightarrow> JStr k)
         \<and> map_of p (u ''pageSize'') = Some (JInt 20)
         \<and> amended_shape (extra_params p))"
    using build_params_fixed by blast
qed

lemma us_request_called: "ApiGet us_request \<in> set (all_calls fetcher_keyed)"
  by (simp add: all_calls_def api_calls_def api_request_def countries_and_categories_def
      build_params_def us_request_def fetcher_keyed_def GlobalNewsFetcher_init_def
      settings_keyed_def u_def)

lemma net_log_offline:
  "net_log (snd (collect_all_news env_offline fetcher_keyed False world_empty))
   = net_log world_empty @ all_calls fetcher_keyed"
  by (simp add: collect_all_news_main [OF fetcher_keyed_guard
        key_missing_Some [OF fetcher_keyed_fields(1) u_k_nonempty]])

lemma us_request_sent:
  "ApiGet us_request
     \<in> set (net_log (snd (collect_all_news env_offline fetcher_keyed False world_empty)))"
  using us_request_called by (simp add: net_log_offline)

theorem api_request_shapes_witness:
  "net_log (snd (collect_all_news env_offline fetcher_keyed False world_empty))
     = net_log world_empty @ all_calls fetcher_keyed
   \<and> ApiGet us_request \<in> set (all_calls fetcher_keyed)
   \<and> config_kr \<in> set countries_and_categories
   \<and> req_url us_request = base_url fetcher_keyed @ u ''/top-headlines''
   \<and> map_of (req_params us_request) (u ''pageSize'') = Some (JInt 20)
   \<and> amended_shape (extra_params (req_params us_request))
   \<and> (\<exists>p. build_params fetcher_keyed config_kr = Inr p \<and> amended_shape (extra_params p))"
proof -
  have c: "config_kr \<in> set countries_and_categories"
    by (simp add: config_kr_def countries_and_categories_def)
  from api_request_shapes [where r = us_request and e = env_offline and f = fetcher_keyed
      and force_update = False and w = world_empty and c = config_kr
      and calls = "all_calls fetcher_keyed"]
    net_log_offline us_request_called c
  show ?thesis by blast
qed

text \<open>
  C8 as stated fails: the request for all US headlines is sent (here on the machine
  without network) with the parameters \<open>country = us\<close> and \<open>language = en\<close>, which is none
  of the three shapes of the claim: the first has no language, the second has country
  \<open>gb\<close>, the third has sources and no country.
\<close>

theorem us_request_shape_counterexample:
  "ApiGet us_request
     \<in> set (net_log (snd (collect_all_news env_offline fetcher_keyed False world_empty)))
   \<and> \<not> claimed_shape (extra_params (req_params us_request))"
proof -
  have "\<not> claimed_shape (extra_params (req_params us_request))"
    by (simp add: claimed_shape_def shape_country_def shape_gb_def shape_sources_def
        extra_params_def us_request_def u_def)
  with us_request_sent show ?thesis by blast
qed

section \<open>Failure of one source\<close>



















lemma files_save_refused [simp]:
  "files (save_to_files (sources_only_env body OpenFails) f arts w) = files w"
  by (simp add: save_to_files_def write_file_def sources_only_env_def)


section \<open>The cap of ten entries\<close>


end
